theory Spec2Isabelle
  imports Main
begin

section \<open>Account import and export (src/src/hooks/useAccountsImportExport.tsx)\<close>

text \<open>
  A JavaScript string is a sequence of UTF-16 code units. It is modelled as a
  \<open>string\<close> whose characters stand for the code units of the same number, so the
  model covers the texts whose code units are below 256 (ISO 8859-1). The double quote
  is \<open>CHR 0x22\<close>, the line feed \<open>CHR 0x0A\<close>.
\<close>

subsection \<open>String primitives of the host language\<close>

text \<open>
  The white space and line terminators that \<open>String.prototype.trim\<close> removes, as far
  as they lie below 256: TAB, LF, VT, FF, CR, SP and NBSP.
\<close>

definition is_space :: "char \<Rightarrow> bool" where
  "is_space c = (c \<in> set [CHR 0x09, CHR 0x0A, CHR 0x0B, CHR 0x0C, CHR 0x0D, CHR 0x20, CHR 0xA0])"

definition trim :: "string \<Rightarrow> string" where
  "trim s = rev (dropWhile is_space (rev (dropWhile is_space s)))"

text \<open>A JavaScript string used as a condition is true when it is not empty.\<close>

definition truthy :: "string option \<Rightarrow> bool" where
  "truthy v = (case v of None \<Rightarrow> False | Some s \<Rightarrow> s \<noteq> [])"

text \<open>\<open>a || b\<close> on values that are a string, or null or undefined (\<open>None\<close>).\<close>

definition js_or :: "string option \<Rightarrow> string option \<Rightarrow> string option" where
  "js_or a b = (if truthy a then a else b)"

text \<open>
  \<open>s.split(sep)\<close> for a separator that is one character, or a class of single
  characters: the pieces between the separators, one more than there are separators.
\<close>

fun split_acc :: "(char \<Rightarrow> bool) \<Rightarrow> string \<Rightarrow> string \<Rightarrow> string list" where
  "split_acc p cur [] = [cur]"
| "split_acc p cur (c # cs) =
     (if p c then cur # split_acc p [] cs else split_acc p (cur @ [c]) cs)"

definition split_js :: "(char \<Rightarrow> bool) \<Rightarrow> string \<Rightarrow> string list" where
  "split_js p s = split_acc p [] s"

text \<open>\<open>s.split(sep)\<close> for a separator of one character.\<close>

definition split_on :: "char \<Rightarrow> string \<Rightarrow> string list" where
  "split_on sep s = split_js (\<lambda>c. c = sep) s"

text \<open>\<open>xs.join(sep)\<close> on strings.\<close>

fun join :: "string \<Rightarrow> string list \<Rightarrow> string" where
  "join sep [] = []"
| "join sep [x] = x"
| "join sep (x # y # ys) = x @ sep @ join sep (y # ys)"

text \<open>A natural number in a template literal: its decimal digits.\<close>

definition digit_char :: "nat \<Rightarrow> char" where
  "digit_char d = ''0123456789'' ! d"

fun show_nat :: "nat \<Rightarrow> string" where
  "show_nat n = (if n < 10 then [digit_char n] else show_nat (n div 10) @ [digit_char (n mod 10)])"

declare show_nat.simps [simp del]

subsection \<open>parseCSVLine\<close>

text \<open>
  The loop \<open>for (let i = 0; i < line.length; i++)\<close> over the state
  \<open>result\<close>, \<open>current\<close>, \<open>inQuotes\<close>; after it the last field is pushed.
\<close>

function parseCSVLine_loop :: "string \<Rightarrow> nat \<Rightarrow> string list \<Rightarrow> string \<Rightarrow> bool \<Rightarrow> string list" where
  "parseCSVLine_loop line i result current inQuotes =
     (if i < length line then
        (let char = line ! i in
         if char = CHR 0x22 then parseCSVLine_loop line (i + 1) result current (\<not> inQuotes)
         else if char = CHR '','' \<and> \<not> inQuotes
           then parseCSVLine_loop line (i + 1) (result @ [trim current]) [] inQuotes
         else parseCSVLine_loop line (i + 1) result (current @ [char]) inQuotes)
      else result @ [trim current])"
  by pat_completeness auto
termination
  by (relation "measure (\<lambda>(line, i, result, current, inQuotes). length line - i)") auto

declare parseCSVLine_loop.simps [simp del]

definition parseCSVLine :: "string \<Rightarrow> string list" where
  "parseCSVLine line = parseCSVLine_loop line 0 [] [] False"

text \<open>
  The scan as the specification words it, by recursion on the characters still to be
  read: a double quote toggles the quoted mode, a comma outside quotes ends the current
  field, any other character is appended to the current field; a completed field is
  trimmed, and the last field is appended at the end of the line.
\<close>

fun scan_fields :: "bool \<Rightarrow> string \<Rightarrow> string \<Rightarrow> string list" where
  "scan_fields quoted field [] = [trim field]"
| "scan_fields quoted field (c # cs) =
     (if c = CHR 0x22 then scan_fields (\<not> quoted) field cs
      else if c = CHR '','' \<and> \<not> quoted then trim field # scan_fields False [] cs
      else scan_fields quoted (field @ [c]) cs)"

subsection \<open>Header normalisation\<close>

text \<open>
  \<open>h.toLowerCase()\<close> on a code unit below 256: the letters A to Z and the capital
  letters from 0xC0 to 0xDE (the multiplication sign 0xD7 apart) move up by 32.
\<close>

definition toLowerCase_char :: "char \<Rightarrow> char" where
  "toLowerCase_char c =
     (let n = (of_char c :: nat) in
      if (65 \<le> n \<and> n \<le> 90) \<or> (192 \<le> n \<and> n \<le> 222 \<and> n \<noteq> 215)
      then char_of (n + 32) else c)"

text \<open>The class \<open>[a-z0-9_]\<close>.\<close>

definition is_key_char :: "char \<Rightarrow> bool" where
  "is_key_char c =
     (let n = (of_char c :: nat) in
      (97 \<le> n \<and> n \<le> 122) \<or> (48 \<le> n \<and> n \<le> 57) \<or> n = 95)"

text \<open>\<open>h.toLowerCase().replace(/[^a-z0-9_]/g, '_')\<close>\<close>

definition normalize_header :: "string \<Rightarrow> string" where
  "normalize_header h =
     map (\<lambda>c. if is_key_char c then c else CHR ''_'') (map toLowerCase_char h)"

subsection \<open>The record of one data row\<close>

text \<open>
  The object \<open>record\<close> built for a row holds, under each key, a string or null; the
  code reads it only through \<open>||\<close> and \<open>if\<close>, which do not tell null from a
  property that was never set. It is a map in which \<open>None\<close> is both.
\<close>

type_synonym row = "string \<rightharpoonup> string"

text \<open>\<open>values[idx] || null\<close>: undefined beyond the end of the array.\<close>

definition value_at :: "string list \<Rightarrow> nat \<Rightarrow> string option" where
  "value_at values idx =
     js_or (if idx < length values then Some (values ! idx) else None) None"

text \<open>
  \<open>record[header] = v\<close> on an object literal, which is the own properties of the
  object and whether its prototype has been set to null. Under the key
  \<open>__proto__\<close> the assignment reaches the setter of the prototype as long as there
  is one: null then removes the prototype, a string is ignored, and no property is
  created. Once the prototype is null the key is a property like any other.
\<close>

definition set_field :: "row \<times> bool \<Rightarrow> string \<Rightarrow> string option \<Rightarrow> row \<times> bool" where
  "set_field obj header v =
     (let (record, null_proto) = obj in
      if header = ''__proto__'' \<and> \<not> null_proto then (record, v = None)
      else (record(header := v), null_proto))"

text \<open>\<open>headers.forEach((header, idx) => { record[header] = values[idx] || null; })\<close>\<close>

fun assign_fields :: "string list \<Rightarrow> string list \<Rightarrow> nat \<Rightarrow> row \<times> bool \<Rightarrow> row \<times> bool" where
  "assign_fields [] values idx obj = obj"
| "assign_fields (header # headers) values idx obj =
     assign_fields headers values (idx + 1) (set_field obj header (value_at values idx))"

definition build_record :: "string list \<Rightarrow> string list \<Rightarrow> row" where
  "build_record headers values = fst (assign_fields headers values 0 (Map.empty, False))"

subsection \<open>Validation of a row\<close>

definition validStatuses :: "string list" where
  "validStatuses = [''New'', ''Working'', ''Warm'', ''Hot'', ''Nurture'', ''Closed-Won'', ''Closed-Lost'']"

text \<open>The last tag starts with the micro sign, code unit 0xB5.\<close>

definition validTags :: "string list" where
  "validTags =
     [''AUTOSAR'', ''Adaptive AUTOSAR'', ''Embedded Systems'', ''BSW'', ''ECU'', ''Zone Controller'',
      ''HCP'', ''CI/CD'', ''V&V Testing'', ''Integration'', ''Software Architecture'', ''LINUX'',
      ''QNX'', ''Cybersecurity'', ''FuSa'', ''OTA'', ''Diagnostics'', ''Vehicle Network'',
      ''Vehicle Architecture'', ''Connected Car'', ''Platform'', CHR 0xB5 # ''C/HW'']"

text \<open>\<open>xs.includes(x)\<close>\<close>

fun includes_list :: "'a list \<Rightarrow> 'a \<Rightarrow> bool" where
  "includes_list [] x = False"
| "includes_list (y # ys) x = (if y = x then True else includes_list ys x)"

text \<open>
  The fields sent to the persistence service (\<open>recordWithoutId\<close>), and the record
  pushed on \<open>records\<close>, which has the identifier besides.
\<close>

record account_fields =
  company_name :: string
  email :: "string option"
  region :: "string option"
  country :: "string option"
  website :: "string option"
  company_type :: "string option"
  tags :: "string list option"
  status :: string
  "notes" :: "string option"
  industry :: "string option"
  phone :: "string option"
  created_by :: string
  account_owner :: string
  modified_by :: string

record import_record = account_fields +
  id_r :: "string option"

text \<open>\<open>record.company_name || record.name || record.company\<close>\<close>

definition companyName_of :: "row \<Rightarrow> string option" where
  "companyName_of record =
     js_or (js_or (record ''company_name'') (record ''name'')) (record ''company'')"

text \<open>\<open>let status = record.status || 'New'; if (!validStatuses.includes(status)) status = 'New'\<close>\<close>

definition status_of :: "row \<Rightarrow> string" where
  "status_of record =
     (let status = (case js_or (record ''status'') (Some ''New'') of Some s \<Rightarrow> s | None \<Rightarrow> ''New'')
      in if \<not> includes_list validStatuses status then ''New'' else status)"

text \<open>
  The tags: \<open>[]\<close> unless \<open>record.tags\<close> is a non-empty string, which is split
  at \<open>/[,;]/\<close>, each piece trimmed, and the pieces of validTags kept.
\<close>

definition tags_of :: "row \<Rightarrow> string list" where
  "tags_of record =
     (if truthy (record ''tags'') then
        (let tagList = map trim (split_js (\<lambda>c. c = CHR '','' \<or> c = CHR '';'') (the (record ''tags'')))
         in filter (\<lambda>t. includes_list validTags t) tagList)
      else [])"

text \<open>\<open>record.f || user.id\<close>, a string in either case.\<close>

definition or_user :: "string option \<Rightarrow> string \<Rightarrow> string" where
  "or_user v uid = (case js_or v (Some uid) of Some s \<Rightarrow> s | None \<Rightarrow> uid)"

text \<open>The object literal pushed on \<open>records\<close>, for a row whose company name is given.\<close>

definition make_record :: "row \<Rightarrow> string \<Rightarrow> string \<Rightarrow> import_record" where
  "make_record record companyName uid =
     \<lparr> company_name = companyName,
       email = js_or (record ''email'') None,
       region = js_or (record ''region'') None,
       country = js_or (record ''country'') None,
       website = js_or (record ''website'') None,
       company_type = js_or (record ''company_type'') None,
       tags = (let tags = tags_of record in if length tags > 0 then Some tags else None),
       status = status_of record,
       notes = js_or (record ''notes'') None,
       industry = js_or (record ''industry'') None,
       phone = js_or (record ''phone'') None,
       created_by = or_user (record ''created_by'') uid,
       account_owner = or_user (record ''account_owner'') uid,
       modified_by = uid,
       id_r = js_or (record ''id'') None \<rparr>"

text \<open>
  The body of the loop over the data rows, for the line at index \<open>i\<close>: the row is
  pushed on \<open>records\<close>, or a message on \<open>errors\<close>.
\<close>

definition row_error :: "nat \<Rightarrow> string" where
  "row_error i = ''Row '' @ show_nat (i + 1) @ '': Missing company_name''"

definition process_row ::
  "string list \<Rightarrow> string \<Rightarrow> nat \<Rightarrow> string \<Rightarrow> import_record list \<times> string list
     \<Rightarrow> import_record list \<times> string list" where
  "process_row headers uid i line acc =
     (let values = parseCSVLine line;
          record = build_record headers values;
          companyName = companyName_of record
      in if \<not> truthy companyName then (fst acc, snd acc @ [row_error i])
         else (fst acc @ [make_record record (the companyName) uid], snd acc))"

text \<open>\<open>for (let i = 1; i < lines.length; i++)\<close>\<close>

function process_rows ::
  "string list \<Rightarrow> string \<Rightarrow> string list \<Rightarrow> nat \<Rightarrow> import_record list \<times> string list
     \<Rightarrow> import_record list \<times> string list" where
  "process_rows headers uid lines i acc =
     (if i < length lines
      then process_rows headers uid lines (i + 1) (process_row headers uid i (lines ! i) acc)
      else acc)"
  by pat_completeness auto
termination
  by (relation "measure (\<lambda>(headers, uid, lines, i, acc). length lines - i)") auto

declare process_rows.simps [simp del]

text \<open>
  The lines of the file, the header list and the two lists the row loop leaves:
  \<open>text.split('\n').filter(line => line.trim())\<close>, then the loop from index 1.
\<close>

definition lines_of :: "string \<Rightarrow> string list" where
  "lines_of text = filter (\<lambda>line. trim line \<noteq> []) (split_on (CHR 0x0A) text)"

definition headers_of :: "string list \<Rightarrow> string list" where
  "headers_of lines = map normalize_header (parseCSVLine (lines ! 0))"

definition parse_rows :: "string \<Rightarrow> string list \<Rightarrow> import_record list \<times> string list" where
  "parse_rows uid lines = process_rows (headers_of lines) uid lines 1 ([], [])"

subsection \<open>The persistence service\<close>

text \<open>
  The service is outside the program. It is a parameter: a state \<open>'s\<close> of its own and
  one function for each request the import makes, which answers and moves the state.
  A select with \<open>maybeSingle\<close> answers the identifier of the row found, or null;
  an update or insert answers whether it reports an error; a request that fails
  answers with its error and does not throw. \<open>clock\<close> is
  \<open>new Date().toISOString()\<close>.
\<close>

record 's service =
  select_by_id :: "string \<Rightarrow> 's \<Rightarrow> string option \<times> 's"
  select_by_company_name :: "string \<Rightarrow> 's \<Rightarrow> string option \<times> 's"
  update_by_id :: "account_fields \<Rightarrow> string \<Rightarrow> string \<Rightarrow> 's \<Rightarrow> bool \<times> 's"
  insert_row :: "account_fields \<Rightarrow> 's \<Rightarrow> bool \<times> 's"
  clock :: "'s \<Rightarrow> string"

text \<open>
  The requests sent, in order. An update carries the fields, the time stamp
  \<open>updated_at\<close> and the identifier of the row it addresses.
\<close>

datatype call =
    SelectById string
  | SelectByCompanyName string
  | Update account_fields string string
  | Insert account_fields

record 's tally =
  successCount :: nat
  updateCount :: nat
  calls :: "call list"
  store :: 's

subsection \<open>Reconciliation of one record\<close>

text \<open>\<open>const { id, ...recordWithoutId } = record\<close>\<close>

definition recordWithoutId :: "import_record \<Rightarrow> account_fields" where
  "recordWithoutId r = account_fields.truncate r"

text \<open>
  \<open>update({ ...recordWithoutId, updated_at }).eq('id', target)\<close>, then
  \<open>if (!error) updateCount++\<close>.
\<close>

definition do_update :: "'s service \<Rightarrow> import_record \<Rightarrow> string \<Rightarrow> 's tally \<Rightarrow> 's tally" where
  "do_update svc r target t =
     (let updated_at = clock svc (store t);
          (error, s') = update_by_id svc (recordWithoutId r) updated_at target (store t)
      in t\<lparr> updateCount := (if \<not> error then updateCount t + 1 else updateCount t),
             calls := calls t @ [Update (recordWithoutId r) updated_at target],
             store := s' \<rparr>)"

text \<open>\<open>insert(recordWithoutId)\<close>, then \<open>if (!error) successCount++\<close>.\<close>

definition do_insert :: "'s service \<Rightarrow> import_record \<Rightarrow> 's tally \<Rightarrow> 's tally" where
  "do_insert svc r t =
     (let (error, s') = insert_row svc (recordWithoutId r) (store t)
      in t\<lparr> successCount := (if \<not> error then successCount t + 1 else successCount t),
             calls := calls t @ [Insert (recordWithoutId r)],
             store := s' \<rparr>)"

text \<open>The second half of the loop body: the check by company name.\<close>

definition by_company_name :: "'s service \<Rightarrow> import_record \<Rightarrow> 's tally \<Rightarrow> 's tally" where
  "by_company_name svc r t =
     (let (existing, s') = select_by_company_name svc (company_name r) (store t);
          t' = t\<lparr> calls := calls t @ [SelectByCompanyName (company_name r)], store := s' \<rparr>
      in case existing of
           Some existing_id \<Rightarrow> do_update svc r existing_id t'
         | None \<Rightarrow> do_insert svc r t')"

text \<open>The body of \<open>for (const record of records)\<close>.\<close>

definition reconcile_record :: "'s service \<Rightarrow> import_record \<Rightarrow> 's tally \<Rightarrow> 's tally" where
  "reconcile_record svc r t =
     (if truthy (id_r r) then
        (let ident = the (id_r r);
             (existingById, s') = select_by_id svc ident (store t);
             t' = t\<lparr> calls := calls t @ [SelectById ident], store := s' \<rparr>
         in case existingById of
              Some _ \<Rightarrow> do_update svc r ident t'
            | None \<Rightarrow> by_company_name svc r t')
      else by_company_name svc r t)"

fun reconcile_all :: "'s service \<Rightarrow> import_record list \<Rightarrow> 's tally \<Rightarrow> 's tally" where
  "reconcile_all svc [] t = t"
| "reconcile_all svc (r # rs) t = reconcile_all svc rs (reconcile_record svc r t)"

subsection \<open>handleImport\<close>

text \<open>
  What an import leaves: the notification shown, the requests sent to the persistence
  service, its state, and whether \<open>onImportComplete\<close> was called.
\<close>

record toast =
  title :: string
  description :: string
  destructive :: bool

record 's outcome =
  shown :: toast
  sent :: "call list"
  final :: 's
  completed :: bool

text \<open>The catch clause: \<open>error.message || "An unexpected error occurred"\<close>.\<close>

definition import_failed :: "string \<Rightarrow> 's \<Rightarrow> 's outcome" where
  "import_failed message s =
     \<lparr> shown = \<lparr> title = ''Import Failed'',
                 description = (if message \<noteq> [] then message else ''An unexpected error occurred''),
                 destructive = True \<rparr>,
       sent = [], final = s, completed = False \<rparr>"

definition import_summary :: "nat \<Rightarrow> nat \<Rightarrow> nat \<Rightarrow> string" where
  "import_summary created updated nerrors =
     ''Created '' @ show_nat created @ '' new accounts, updated '' @ show_nat updated
       @ '' existing accounts''
       @ (if nerrors > 0 then ''. '' @ show_nat nerrors @ '' rows had errors.'' else [])"

text \<open>
  \<open>user\<close> is the identifier of the signed-in user, or \<open>None\<close>; \<open>text\<close> is the
  content of the file.
\<close>

definition handleImport :: "'s service \<Rightarrow> string option \<Rightarrow> string \<Rightarrow> 's \<Rightarrow> 's outcome" where
  "handleImport svc user text s =
     (case user of
        None \<Rightarrow> import_failed ''User not authenticated'' s
      | Some uid \<Rightarrow>
          (let lines = lines_of text in
           if length lines < 2
           then import_failed ''CSV file must have headers and at least one data row'' s
           else
             (let (records, errors) = parse_rows uid lines in
              if length records = 0 then import_failed ''No valid records found in CSV'' s
              else
                (let t = reconcile_all svc records
                           \<lparr> successCount = 0, updateCount = 0, calls = [], store = s \<rparr>
                 in \<lparr> shown = \<lparr> title = ''Import Successful'',
                                  description = import_summary (successCount t) (updateCount t) (length errors),
                                  destructive = False \<rparr>,
                        sent = calls t, final = store t, completed = True \<rparr>))))"

subsection \<open>handleExport\<close>

text \<open>
  The value of a column of a stored account, as the query returns it: null, a string,
  or an array (the tags); undefined when the row has no such property.
\<close>

datatype jsval = JNull | JUndefined | JStr string | JArr "jsval list"

text \<open>
  \<open>String(value)\<close> and \<open>array.join(sep)\<close>. An array as a string is its elements
  joined by commas; in a join, a null or undefined element is the empty string.
\<close>

fun to_String :: "jsval \<Rightarrow> string" and join_js :: "string \<Rightarrow> jsval list \<Rightarrow> string" where
  "to_String JNull = ''null''"
| "to_String JUndefined = ''undefined''"
| "to_String (JStr s) = s"
| "to_String (JArr xs) = join_js '','' xs"
| "join_js sep [] = []"
| "join_js sep [x] = (case x of JNull \<Rightarrow> [] | JUndefined \<Rightarrow> [] | _ \<Rightarrow> to_String x)"
| "join_js sep (x # y # ys) =
     (case x of JNull \<Rightarrow> [] | JUndefined \<Rightarrow> [] | _ \<Rightarrow> to_String x) @ sep @ join_js sep (y # ys)"

text \<open>\<open>strValue.includes(c)\<close> for a one-character string \<open>c\<close>.\<close>

fun includes_char :: "string \<Rightarrow> char \<Rightarrow> bool" where
  "includes_char [] c = False"
| "includes_char (d # ds) c = (if d = c then True else includes_char ds c)"

text \<open>\<open>strValue.replace(/"/g, '""')\<close>\<close>

fun double_quotes :: "string \<Rightarrow> string" where
  "double_quotes [] = []"
| "double_quotes (c # cs) =
     (if c = CHR 0x22 then CHR 0x22 # CHR 0x22 # double_quotes cs else c # double_quotes cs)"

definition export_headers :: "string list" where
  "export_headers =
     [''id'', ''company_name'', ''email'', ''company_type'', ''industry'', ''tags'', ''country'',
      ''status'', ''website'', ''region'', ''notes'', ''phone'',
      ''account_owner'', ''created_by'', ''modified_by'', ''created_at'', ''updated_at'']"

text \<open>The function mapped over the headers: the text of one field of an account.\<close>

definition export_field :: "string \<Rightarrow> jsval \<Rightarrow> string" where
  "export_field header v =
     (let value = (case v of
                     JArr xs \<Rightarrow> if header = ''tags'' then JStr (join_js '';'' xs) else v
                   | _ \<Rightarrow> v)
      in if value = JNull \<or> value = JUndefined then []
         else
           (let strValue = to_String value in
            if includes_char strValue CHR '','' \<or> includes_char strValue (CHR 0x22)
               \<or> includes_char strValue (CHR 0x0A)
            then [CHR 0x22] @ double_quotes strValue @ [CHR 0x22]
            else strValue))"

type_synonym account = "string \<Rightarrow> jsval"

definition export_row :: "account \<Rightarrow> string" where
  "export_row account = join '','' (map (\<lambda>header. export_field header (account header)) export_headers)"

definition csvContent :: "account list \<Rightarrow> string" where
  "csvContent data = join [CHR 0x0A] (join '','' export_headers # map export_row data)"

text \<open>
  What an export leaves: the notification, and the file offered for download if there
  is one. The query answers rows (or null) and an error message (or null); \<open>today\<close>
  is the date part of \<open>new Date().toISOString()\<close>.
\<close>

record export_outcome =
  notice :: toast
  download :: "(string \<times> string) option"

definition handleExport :: "account list option \<Rightarrow> string option \<Rightarrow> string \<Rightarrow> export_outcome" where
  "handleExport data error today =
     (case error of
        Some message \<Rightarrow>
          \<lparr> notice = \<lparr> title = ''Export Failed'',
                        description = (if message \<noteq> [] then message else ''An unexpected error occurred''),
                        destructive = True \<rparr>,
            download = None \<rparr>
      | None \<Rightarrow>
          (if data = None \<or> length (the data) = 0
           then \<lparr> notice = \<lparr> title = ''No Data'', description = ''No accounts to export.'',
                               destructive = False \<rparr>,
                   download = None \<rparr>
           else \<lparr> notice = \<lparr> title = ''Export Successful'',
                               description = ''Exported '' @ show_nat (length (the data)) @ '' accounts to CSV.'',
                               destructive = False \<rparr>,
                   download = Some (''accounts_export_'' @ today @ ''.csv'', csvContent (the data)) \<rparr>))"

subsection \<open>Auxiliary definitions for the proofs\<close>

text \<open>The row loop by recursion on the lines still to be read, from index \<open>i\<close>.\<close>

fun rows_from ::
  "string list \<Rightarrow> string \<Rightarrow> nat \<Rightarrow> string list \<Rightarrow> import_record list \<times> string list
     \<Rightarrow> import_record list \<times> string list" where
  "rows_from headers uid i [] acc = acc"
| "rows_from headers uid i (line # rest) acc =
     rows_from headers uid (i + 1) rest (process_row headers uid i line acc)"

text \<open>
  A small in-memory service on which the import is run at concrete inputs: the stored
  accounts are pairs of identifier and company name, a select with \<open>maybeSingle\<close>
  answers null unless exactly one row matches, and every update reports an error when
  \<open>fail_updates\<close> is set.
\<close>

definition mem_service :: "bool \<Rightarrow> (string \<times> string) list service" where
  "mem_service fail_updates =
     \<lparr> select_by_id = (\<lambda>ident s.
         ((case filter (\<lambda>a. fst a = ident) s of [a] \<Rightarrow> Some (fst a) | _ \<Rightarrow> None), s)),
       select_by_company_name = (\<lambda>name s.
         ((case filter (\<lambda>a. snd a = name) s of [a] \<Rightarrow> Some (fst a) | _ \<Rightarrow> None), s)),
       update_by_id = (\<lambda>fields updated_at ident s.
         if fail_updates then (True, s)
         else (False, map (\<lambda>a. if fst a = ident then (fst a, company_name fields) else a) s)),
       insert_row = (\<lambda>fields s. (False, s @ [(''new-'' @ show_nat (length s), company_name fields)])),
       clock = (\<lambda>s. ''2024-01-01T00:00:00.000Z'') \<rparr>"

text \<open>
  An account as the query returns it, for running the export at concrete inputs: the
  object with the listed properties, any other property being undefined.
\<close>

definition account_of :: "(string \<times> jsval) list \<Rightarrow> account" where
  "account_of props header = (case map_of props header of Some v \<Rightarrow> v | None \<Rightarrow> JUndefined)"

subsection \<open>Properties of parseCSVLine\<close>

lemma parseCSVLine_loop_scan:
  "parseCSVLine_loop line i result current inQuotes =
     result @ scan_fields inQuotes current (drop i line)"
proof (induction line i result current inQuotes rule: parseCSVLine_loop.induct)
  case (1 line i result current inQuotes)
  show ?case
  proof (cases "i < length line")
    case False
    then show ?thesis
      by (subst parseCSVLine_loop.simps) simp
  next
    case True
    then have d: "drop i line = line ! i # drop (i + 1) line"
      by (simp add: Cons_nth_drop_Suc)
    show ?thesis
    proof (cases "line ! i = CHR 0x22")
      case q: True
      with True "1.IH"(1) [OF True refl q] d show ?thesis
        by (subst parseCSVLine_loop.simps) simp
    next
      case q: False
      show ?thesis
      proof (cases "line ! i = CHR '','' \<and> \<not> inQuotes")
        case s: True
        with True q "1.IH"(2) [OF True refl q s] d show ?thesis
          by (subst parseCSVLine_loop.simps) simp
      next
        case s: False
        with True q "1.IH"(3) [OF True refl q s] d show ?thesis
          by (subst parseCSVLine_loop.simps) auto
      qed
    qed
  qed
qed

text \<open>
  C1. For every line, parseCSVLine returns the fields of the single scan in which a
  double quote toggles the quoted mode, a comma outside quotes ends the field, every
  other character is appended, each field is trimmed and the last field is appended at
  the end of the line; the line a,"b,c",d gives the three fields a and b,c and d.
\<close>

theorem parseCSVLine_scan:
  \<open>(\<forall>line. parseCSVLine line = scan_fields False [] line)
   \<and> parseCSVLine ''a,"b,c",d'' = [''a'', ''b,c'', ''d'']\<close>
proof
  show "\<forall>line. parseCSVLine line = scan_fields False [] line"
    by (simp add: parseCSVLine_def parseCSVLine_loop_scan)
  show \<open>parseCSVLine ''a,"b,c",d'' = [''a'', ''b,c'', ''d'']\<close>
    by (simp add: parseCSVLine_def parseCSVLine_loop_scan trim_def is_space_def)
qed

subsection \<open>The string primitives at concrete inputs\<close>

lemma trim_both_sides: "trim (CHR 0x09 # '' a b '' @ [CHR 0x0D, CHR 0xA0]) = ''a b''"
  by (simp add: trim_def is_space_def)

lemma normalize_header_example: "normalize_header ''Company Name!'' = ''company_name_''"
  by code_simp

lemma split_on_example: "split_on CHR '','' ''a,,b,'' = [''a'', [], ''b'', []]"
  by (simp add: split_on_def split_js_def)

subsection \<open>Properties of the record of a row\<close>

lemma value_at_not_empty: "value_at vals idx \<noteq> Some []"
  by (simp add: value_at_def js_or_def truthy_def)

lemma value_at_absent: "length vals \<le> idx \<or> vals ! idx = [] \<Longrightarrow> value_at vals idx = None"
  by (auto simp: value_at_def js_or_def truthy_def)

lemma value_at_present: "idx < length vals \<Longrightarrow> vals ! idx \<noteq> [] \<Longrightarrow> value_at vals idx = Some (vals ! idx)"
  by (simp add: value_at_def js_or_def truthy_def)

lemma value_at_take: "idx < n \<Longrightarrow> value_at (take n vals) idx = value_at vals idx"
  by (simp add: value_at_def)

lemma set_field_other: "k \<noteq> h \<Longrightarrow> fst (set_field obj h v) k = fst obj k"
  by (cases obj) (simp add: set_field_def)

lemma set_field_not_empty:
  "fst obj k \<noteq> Some [] \<Longrightarrow> v \<noteq> Some [] \<Longrightarrow> fst (set_field obj h v) k \<noteq> Some []"
  by (cases obj) (simp add: set_field_def)

lemma set_field_same:
  "h \<noteq> ''__proto__'' \<Longrightarrow> fst (set_field obj h v) h = v"
  by (cases obj) (simp add: set_field_def)

lemma set_field_absent:
  "\<not> snd obj \<longrightarrow> fst obj ''__proto__'' = None \<Longrightarrow> fst (set_field obj h None) h = None"
  by (cases obj) (simp add: set_field_def)

lemma set_field_proto_invariant:
  "\<not> snd obj \<longrightarrow> fst obj ''__proto__'' = None \<Longrightarrow>
   \<not> snd (set_field obj h v) \<longrightarrow> fst (set_field obj h v) ''__proto__'' = None"
  by (cases obj) (auto simp: set_field_def)

lemma assign_fields_other:
  "k \<notin> set hdrs \<Longrightarrow> fst (assign_fields hdrs vals idx obj) k = fst obj k"
  by (induction hdrs arbitrary: idx obj) (auto simp: set_field_other)

lemma assign_fields_proto_invariant:
  "\<not> snd obj \<longrightarrow> fst obj ''__proto__'' = None \<Longrightarrow>
   \<not> snd (assign_fields hdrs vals idx obj)
     \<longrightarrow> fst (assign_fields hdrs vals idx obj) ''__proto__'' = None"
proof (induction hdrs arbitrary: idx obj)
  case Nil
  then show ?case by simp
next
  case (Cons h hs)
  have "\<not> snd (set_field obj h (value_at vals idx))
      \<longrightarrow> fst (set_field obj h (value_at vals idx)) ''__proto__'' = None"
    using Cons.prems by (rule set_field_proto_invariant)
  then have "\<not> snd (assign_fields hs vals (idx + 1) (set_field obj h (value_at vals idx)))
      \<longrightarrow> fst (assign_fields hs vals (idx + 1) (set_field obj h (value_at vals idx))) ''__proto__'' = None"
    by (rule Cons.IH)
  then show ?case by simp
qed

lemma assign_fields_append:
  "assign_fields (xs @ ys) vals idx obj =
     assign_fields ys vals (idx + length xs) (assign_fields xs vals idx obj)"
  by (induction xs arbitrary: idx obj) simp_all

lemma assign_fields_at_last:
  assumes "j < length hdrs" and "hdrs ! j \<notin> set (drop (Suc j) hdrs)"
  shows "fst (assign_fields hdrs vals idx obj) (hdrs ! j) =
     fst (set_field (assign_fields (take j hdrs) vals idx obj) (hdrs ! j) (value_at vals (idx + j))) (hdrs ! j)"
proof -
  have "hdrs = take j hdrs @ hdrs ! j # drop (Suc j) hdrs"
    using assms(1) by (simp add: id_take_nth_drop [symmetric])
  then have "assign_fields hdrs vals idx obj =
      assign_fields (take j hdrs @ hdrs ! j # drop (Suc j) hdrs) vals idx obj"
    by simp
  also have "\<dots> = assign_fields (drop (Suc j) hdrs) vals (idx + j + 1)
      (set_field (assign_fields (take j hdrs) vals idx obj) (hdrs ! j) (value_at vals (idx + j)))"
    using assms(1) by (simp add: assign_fields_append min_def)
  finally show ?thesis
    using assms(2) by (simp add: assign_fields_other)
qed

lemma assign_fields_last:
  "j < length hdrs \<Longrightarrow> hdrs ! j \<notin> set (drop (Suc j) hdrs) \<Longrightarrow>
   hdrs ! j \<noteq> ''__proto__'' \<Longrightarrow>
   fst (assign_fields hdrs vals idx obj) (hdrs ! j) = value_at vals (idx + j)"
  by (simp add: assign_fields_at_last set_field_same)

lemma assign_fields_last_absent:
  assumes "j < length hdrs" and "hdrs ! j \<notin> set (drop (Suc j) hdrs)"
    and "value_at vals (idx + j) = None"
    and "\<not> snd obj \<longrightarrow> fst obj ''__proto__'' = None"
  shows "fst (assign_fields hdrs vals idx obj) (hdrs ! j) = None"
proof -
  have "\<not> snd (assign_fields (take j hdrs) vals idx obj)
      \<longrightarrow> fst (assign_fields (take j hdrs) vals idx obj) ''__proto__'' = None"
    using assms(4) by (rule assign_fields_proto_invariant)
  then have "fst (set_field (assign_fields (take j hdrs) vals idx obj) (hdrs ! j) None) (hdrs ! j) = None"
    by (rule set_field_absent)
  with assms(1-3) show ?thesis
    by (simp add: assign_fields_at_last)
qed

lemma assign_fields_not_empty:
  "fst obj k \<noteq> Some [] \<Longrightarrow> fst (assign_fields hdrs vals idx obj) k \<noteq> Some []"
proof (induction hdrs arbitrary: idx obj)
  case Nil
  then show ?case by simp
next
  case (Cons h hs)
  have "fst (set_field obj h (value_at vals idx)) k \<noteq> Some []"
    using Cons.prems value_at_not_empty [of vals idx] by (rule set_field_not_empty)
  then have "fst (assign_fields hs vals (idx + 1) (set_field obj h (value_at vals idx))) k \<noteq> Some []"
    by (rule Cons.IH)
  then show ?case by simp
qed

lemma assign_fields_take:
  "assign_fields hdrs (take (idx + length hdrs) vals) idx obj
     = assign_fields hdrs vals idx obj"
proof (induction hdrs arbitrary: idx obj)
  case Nil
  then show ?case by simp
next
  case (Cons h hs)
  have v: "value_at (take (idx + length (h # hs)) vals) idx = value_at vals idx"
    by (rule value_at_take) simp
  have "assign_fields hs (take (idx + 1 + length hs) vals) (idx + 1) (set_field obj h (value_at vals idx))
      = assign_fields hs vals (idx + 1) (set_field obj h (value_at vals idx))"
    by (rule Cons.IH)
  with v show ?case by (simp add: add.commute add.left_commute)
qed

text \<open>
  The key \<open>__proto__\<close>: a column under it stores nothing while the object has its
  prototype; after an empty cell under it has removed the prototype, a later column
  under it is stored.
\<close>

lemma build_record_proto_key:
  "build_record [''__proto__'', ''name''] [''x'', ''Acme''] ''__proto__'' = None
   \<and> build_record [''__proto__'', ''name''] [''x'', ''Acme''] ''name'' = Some ''Acme''
   \<and> build_record [''__proto__'', ''__proto__''] ['''', ''x''] ''__proto__'' = Some ''x''
   \<and> build_record [''__proto__'', ''__proto__''] [''x'', ''y''] ''__proto__'' = None"
  by (simp add: build_record_def set_field_def value_at_def js_or_def truthy_def)

text \<open>
  C10, as amended. The record builder zips the parsed values against the headers by
  position and is total on shape mismatches: no key ever holds the empty string; a
  header whose positional value, at its last occurrence in the header list, is missing
  or empty maps to absent; at its last occurrence a non-empty value is stored as it is
  (the key \<open>__proto__\<close> apart, which may store nothing); a key that is no header is
  absent; and the values beyond the last header are discarded.
\<close>

theorem build_record_shape:
  "(\<forall>k. build_record hdrs vals k \<noteq> Some [])
   \<and> (\<forall>j < length hdrs. hdrs ! j \<notin> set (drop (Suc j) hdrs) \<longrightarrow>
         (length vals \<le> j \<or> vals ! j = []) \<longrightarrow> build_record hdrs vals (hdrs ! j) = None)
   \<and> (\<forall>j < length hdrs. hdrs ! j \<notin> set (drop (Suc j) hdrs) \<longrightarrow>
         hdrs ! j \<noteq> ''__proto__'' \<longrightarrow> j < length vals \<longrightarrow> vals ! j \<noteq> [] \<longrightarrow>
         build_record hdrs vals (hdrs ! j) = Some (vals ! j))
   \<and> (\<forall>k. k \<notin> set hdrs \<longrightarrow> build_record hdrs vals k = None)
   \<and> build_record hdrs (take (length hdrs) vals) = build_record hdrs vals"
proof (intro conjI allI impI)
  fix k
  show "build_record hdrs vals k \<noteq> Some []"
    unfolding build_record_def by (rule assign_fields_not_empty) simp
next
  fix j
  assume j: "j < length hdrs" and l: "hdrs ! j \<notin> set (drop (Suc j) hdrs)"
    and e: "length vals \<le> j \<or> vals ! j = []"
  from e have "value_at vals (0 + j) = None"
    by (simp add: value_at_absent)
  with j l show "build_record hdrs vals (hdrs ! j) = None"
    unfolding build_record_def by (intro assign_fields_last_absent) simp_all
next
  fix j
  assume "j < length hdrs" "hdrs ! j \<notin> set (drop (Suc j) hdrs)"
    "hdrs ! j \<noteq> ''__proto__''" "j < length vals" "vals ! j \<noteq> []"
  then show "build_record hdrs vals (hdrs ! j) = Some (vals ! j)"
    by (simp add: build_record_def assign_fields_last value_at_present)
next
  fix k
  assume "k \<notin> set hdrs"
  then show "build_record hdrs vals k = None"
    by (simp add: build_record_def assign_fields_other)
next
  show "build_record hdrs (take (length hdrs) vals) = build_record hdrs vals"
    using assign_fields_take [of hdrs 0 vals "(Map.empty, False)"] by (simp add: build_record_def)
qed

theorem build_record_shape_witness:
  "build_record [''id'', ''company_name'', ''email''] [''7'', ''''] ''company_name'' = None
   \<and> build_record [''id'', ''company_name'', ''email''] [''7'', ''''] ''email'' = None
   \<and> build_record [''id'', ''company_name'', ''email''] [''7'', ''''] ''id'' = Some ''7''
   \<and> build_record [''id'', ''company_name'', ''email''] [''7'', ''''] ''phone'' = None
   \<and> build_record [''id''] (take 1 [''7'', ''x'', ''y'']) = build_record [''id''] [''7'', ''x'', ''y'']"
  using build_record_shape [of "[''id'', ''company_name'', ''email'']" "[''7'', '''']"]
    build_record_shape [of "[''id'']" "[''7'', ''x'', ''y'']"]
  by (simp add: build_record_def set_field_def value_at_def js_or_def truthy_def)

text \<open>
  C10 as stated fails where two headers normalise to the same key: the later column
  overwrites the earlier one, so a header whose positional value is empty does not map
  to absent.
\<close>

theorem build_record_duplicate_header:
  "[''a'', ''a''] ! 0 = ''a'' \<and> ['''', ''x''] ! 0 = '''' \<and> build_record [''a'', ''a''] ['''', ''x''] ''a'' = Some ''x''"
  by (simp add: build_record_def set_field_def value_at_def js_or_def truthy_def)

subsection \<open>Properties of the row loop\<close>

lemma process_rows_drop:
  "process_rows hdrs uid lines i acc = rows_from hdrs uid i (drop i lines) acc"
proof (induction hdrs uid lines i acc rule: process_rows.induct)
  case (1 hdrs uid lines i acc)
  show ?case
  proof (cases "i < length lines")
    case True
    then have "drop i lines = lines ! i # drop (i + 1) lines"
      by (simp add: Cons_nth_drop_Suc)
    with True "1.IH" show ?thesis
      by (subst process_rows.simps) simp
  next
    case False
    then show ?thesis by (subst process_rows.simps) simp
  qed
qed

lemma rows_from_append:
  "rows_from hdrs uid i (xs @ ys) acc =
     rows_from hdrs uid (i + length xs) ys (rows_from hdrs uid i xs acc)"
  by (induction xs arbitrary: i acc) simp_all

lemma process_row_fst:
  "fst acc = fst acc' \<Longrightarrow> fst (process_row hdrs uid i line acc) = fst (process_row hdrs uid j line acc')"
  by (simp add: process_row_def Let_def)

lemma process_row_snd_length:
  "length (snd (process_row hdrs uid i line acc)) + length (snd acc')
     = length (snd (process_row hdrs uid j line acc')) + length (snd acc)"
  by (simp add: process_row_def Let_def)

lemma rows_from_fst:
  "fst acc = fst acc' \<Longrightarrow> fst (rows_from hdrs uid i ls acc) = fst (rows_from hdrs uid j ls acc')"
proof (induction ls arbitrary: i j acc acc')
  case Nil
  then show ?case by simp
next
  case (Cons l ls)
  have "fst (process_row hdrs uid i l acc) = fst (process_row hdrs uid j l acc')"
    using Cons.prems by (rule process_row_fst)
  then have "fst (rows_from hdrs uid (i + 1) ls (process_row hdrs uid i l acc))
     = fst (rows_from hdrs uid (j + 1) ls (process_row hdrs uid j l acc'))"
    by (rule Cons.IH)
  then show ?case by simp
qed

lemma rows_from_snd_length:
  "length (snd acc) + d = length (snd acc') \<Longrightarrow>
   length (snd (rows_from hdrs uid i ls acc)) + d = length (snd (rows_from hdrs uid j ls acc'))"
proof (induction ls arbitrary: i j acc acc')
  case Nil
  then show ?case by simp
next
  case (Cons l ls)
  have "length (snd (process_row hdrs uid i l acc)) + d = length (snd (process_row hdrs uid j l acc'))"
    using Cons.prems process_row_snd_length [of hdrs uid i l acc acc' j] by simp
  then have "length (snd (rows_from hdrs uid (i + 1) ls (process_row hdrs uid i l acc))) + d
     = length (snd (rows_from hdrs uid (j + 1) ls (process_row hdrs uid j l acc')))"
    by (rule Cons.IH)
  then show ?case by simp
qed

lemma rows_from_snd_prefix:
  "\<exists>more. snd (rows_from hdrs uid i ls acc) = snd acc @ more"
proof (induction ls arbitrary: i acc)
  case Nil
  then show ?case by simp
next
  case (Cons l ls)
  obtain more where "snd (rows_from hdrs uid (i + 1) ls (process_row hdrs uid i l acc))
     = snd (process_row hdrs uid i l acc) @ more"
    using Cons.IH by blast
  then show ?case by (auto simp: process_row_def Let_def)
qed

lemma process_row_rejected:
  assumes "rcd = build_record hdrs (parseCSVLine line)"
    and "\<not> truthy (rcd ''company_name'')" "\<not> truthy (rcd ''name'')" "\<not> truthy (rcd ''company'')"
  shows "process_row hdrs uid i line acc = (fst acc, snd acc @ [row_error i])"
  using assms by (simp add: process_row_def companyName_of_def js_or_def)

lemma parse_rows_split:
  assumes "pre \<noteq> []"
  shows "parse_rows uid (pre @ rest) =
     rows_from (headers_of pre) uid (length pre) rest (parse_rows uid pre)"
proof -
  from assms obtain h tl where pre: "pre = h # tl" by (cases pre) auto
  have h: "headers_of (pre @ rest) = headers_of pre"
    by (simp add: headers_of_def pre)
  show ?thesis
    by (simp add: parse_rows_def h process_rows_drop) (simp add: pre rows_from_append)
qed

text \<open>
  C4, as amended. A data row in which none of the keys company_name, name and company
  holds a non-empty value is left out of the validated records, which are those of the
  file without that row; the error list grows by exactly one message, which carries the
  row's 1-based number among the non-blank lines of the input (the header line being
  number 1); and the rows after it are processed as before.
\<close>

theorem missing_company_name_row:
  assumes "pre \<noteq> []"
    and "\<not> truthy (build_record (headers_of pre) (parseCSVLine line) ''company_name'')"
    and "\<not> truthy (build_record (headers_of pre) (parseCSVLine line) ''name'')"
    and "\<not> truthy (build_record (headers_of pre) (parseCSVLine line) ''company'')"
  shows "fst (parse_rows uid (pre @ line # post)) = fst (parse_rows uid (pre @ post))
    \<and> length (snd (parse_rows uid (pre @ line # post))) = length (snd (parse_rows uid (pre @ post))) + 1
    \<and> (\<exists>more. snd (parse_rows uid (pre @ line # post)) =
          snd (parse_rows uid pre) @ [''Row '' @ show_nat (length pre + 1) @ '': Missing company_name''] @ more)"
proof -
  let ?H = "headers_of pre" and ?A = "parse_rows uid pre"
  let ?B = "(fst ?A, snd ?A @ [row_error (length pre)])"
  have step: "process_row ?H uid (length pre) line ?A = ?B"
    using assms(2-4) by (intro process_row_rejected [OF refl])
  have full: "parse_rows uid (pre @ line # post) = rows_from ?H uid (length pre + 1) post ?B"
    by (simp add: parse_rows_split [OF assms(1)] step)
  have without: "parse_rows uid (pre @ post) = rows_from ?H uid (length pre) post ?A"
    by (rule parse_rows_split [OF assms(1)])
  have 1: "fst (parse_rows uid (pre @ line # post)) = fst (parse_rows uid (pre @ post))"
    unfolding full without by (rule rows_from_fst) simp
  have 2: "length (snd (parse_rows uid (pre @ post))) + 1 = length (snd (parse_rows uid (pre @ line # post)))"
    unfolding full without by (rule rows_from_snd_length) simp
  obtain more where "snd (rows_from ?H uid (length pre + 1) post ?B) = snd ?B @ more"
    using rows_from_snd_prefix by blast
  then have 3: "\<exists>more. snd (parse_rows uid (pre @ line # post)) =
          snd (parse_rows uid pre) @ [''Row '' @ show_nat (length pre + 1) @ '': Missing company_name''] @ more"
    by (simp add: full row_error_def)
  from 1 2 3 show ?thesis by simp
qed

theorem missing_company_name_row_witness:
  "fst (parse_rows ''u1'' ([''id,company_name''] @ ''1,'' # [''2,Acme'']))
     = fst (parse_rows ''u1'' ([''id,company_name''] @ [''2,Acme'']))
   \<and> length (snd (parse_rows ''u1'' ([''id,company_name''] @ ''1,'' # [''2,Acme''])))
     = length (snd (parse_rows ''u1'' ([''id,company_name''] @ [''2,Acme'']))) + 1
   \<and> (\<exists>more. snd (parse_rows ''u1'' ([''id,company_name''] @ ''1,'' # [''2,Acme''])) =
          snd (parse_rows ''u1'' [''id,company_name'']) @ [''Row 2: Missing company_name''] @ more)"
proof -
  have a: "[''id,company_name''] \<noteq> []" by simp
  have b: "\<not> truthy (build_record (headers_of [''id,company_name'']) (parseCSVLine ''1,'') ''company_name'')"
    by code_simp
  have c: "\<not> truthy (build_record (headers_of [''id,company_name'']) (parseCSVLine ''1,'') ''name'')"
    by code_simp
  have d: "\<not> truthy (build_record (headers_of [''id,company_name'']) (parseCSVLine ''1,'') ''company'')"
    by code_simp
  have e: "show_nat (length [''id,company_name''] + 1) = ''2''"
    by (simp add: show_nat.simps digit_char_def)
  show ?thesis
    using missing_company_name_row [OF a b c d, of "''u1''" "[''2,Acme'']"] unfolding e by simp
qed

text \<open>
  C4 as stated fails on the line number: blank lines are dropped before the rows are
  numbered. In the input below the row without a company name is the third line of the
  file and the message names row 2.
\<close>

theorem row_number_skips_blank_lines:
  "split_on (CHR 0x0A) (''id,company_name'' @ [CHR 0x0A, CHR 0x0A] @ ''1,'' @ [CHR 0x0A] @ ''2,Acme'') ! 2 = ''1,''
   \<and> snd (parse_rows ''u1'' (lines_of (''id,company_name'' @ [CHR 0x0A, CHR 0x0A] @ ''1,'' @ [CHR 0x0A] @ ''2,Acme'')))
       = [''Row 2: Missing company_name'']"
  by code_simp

subsection \<open>Properties of the validated record\<close>


lemma split_acc_length: "length (split_acc p cur s) = length (filter p s) + 1"
  by (induction s arbitrary: cur) simp_all


lemma split_acc_pieces:
  "piece \<in> set (split_acc p cur s) \<Longrightarrow> c \<in> set piece \<Longrightarrow> p c \<Longrightarrow> c \<in> set cur"
proof (induction s arbitrary: cur)
  case Nil
  then show ?case by simp
next
  case (Cons a s)
  show ?case
  proof (cases "p a")
    case True
    with Cons.prems have "piece = cur \<or> piece \<in> set (split_acc p [] s)" by simp
    then show ?thesis
    proof
      assume "piece = cur"
      with Cons.prems show ?thesis by simp
    next
      assume "piece \<in> set (split_acc p [] s)"
      from Cons.IH [OF this Cons.prems(2,3)] show ?thesis by simp
    qed
  next
    case False
    with Cons.prems have "piece \<in> set (split_acc p (cur @ [a]) s)" by simp
    from Cons.IH [OF this Cons.prems(2,3)] False Cons.prems(3) show ?thesis by auto
  qed
qed

lemma split_js_length: "length (split_js p s) = length (filter p s) + 1"
  by (simp add: split_js_def split_acc_length)

lemma split_js_pieces: "piece \<in> set (split_js p s) \<Longrightarrow> c \<in> set piece \<Longrightarrow> \<not> p c"
  using split_acc_pieces [of piece p "[]" s c] by (auto simp: split_js_def)










subsection \<open>Properties of handleImport\<close>

lemma split_acc_no_separator:
  "\<forall>c \<in> set s. \<not> p c \<Longrightarrow> split_acc p cur s = [cur @ s]"
  by (induction s arbitrary: cur) simp_all

lemma split_acc_append:
  "\<forall>c \<in> set s. \<not> p c \<Longrightarrow> split_acc p cur (s @ rest) = split_acc p (cur @ s) rest"
  by (induction s arbitrary: cur) simp_all

lemma lines_of_header_only:
  assumes "CHR 0x0A \<notin> set header"
  shows "length (lines_of header) < 2" and "length (lines_of (header @ [CHR 0x0A])) < 2"
proof -
  from assms have n: "\<forall>c \<in> set header. \<not> c = CHR 0x0A" by auto
  show "length (lines_of header) < 2"
    by (simp add: lines_of_def split_on_def split_js_def split_acc_no_separator [OF n])
  show "length (lines_of (header @ [CHR 0x0A])) < 2"
    by (simp add: lines_of_def split_on_def split_js_def split_acc_append [OF n] trim_def)
qed

text \<open>
  C5. An input with fewer than two non-blank lines, as a file that holds only a header
  row does, and an input none of whose rows survives validation, make the import fail
  with a message of its own, and no request is sent to the persistence service. (With
  no signed-in user the failure is the one of authentication, which comes first.)
\<close>

theorem fatal_before_persistence:
  "(length (lines_of text) < 2 \<longrightarrow>
      sent (handleImport svc user text s) = [] \<and> final (handleImport svc user text s) = s
      \<and> \<not> completed (handleImport svc user text s)
      \<and> shown (handleImport svc user text s) =
          \<lparr> title = ''Import Failed'',
            description = (case user of None \<Rightarrow> ''User not authenticated''
                           | Some uid \<Rightarrow> ''CSV file must have headers and at least one data row''),
            destructive = True \<rparr>)
   \<and> (2 \<le> length (lines_of text) \<and> fst (parse_rows uid (lines_of text)) = [] \<longrightarrow>
      sent (handleImport svc (Some uid) text s) = [] \<and> final (handleImport svc (Some uid) text s) = s
      \<and> \<not> completed (handleImport svc (Some uid) text s)
      \<and> shown (handleImport svc (Some uid) text s) =
          \<lparr> title = ''Import Failed'', description = ''No valid records found in CSV'',
            destructive = True \<rparr>)
   \<and> (CHR 0x0A \<notin> set header \<longrightarrow>
        length (lines_of header) < 2 \<and> length (lines_of (header @ [CHR 0x0A])) < 2)
   \<and> ''CSV file must have headers and at least one data row'' \<noteq> ''No valid records found in CSV''
   \<and> ''User not authenticated'' \<noteq> ''CSV file must have headers and at least one data row''
   \<and> ''User not authenticated'' \<noteq> ''No valid records found in CSV''"
proof (intro conjI impI)
  assume "length (lines_of text) < 2"
  then show "sent (handleImport svc user text s) = []"
    "final (handleImport svc user text s) = s"
    "\<not> completed (handleImport svc user text s)"
    "shown (handleImport svc user text s) =
          \<lparr> title = ''Import Failed'',
            description = (case user of None \<Rightarrow> ''User not authenticated''
                           | Some uid \<Rightarrow> ''CSV file must have headers and at least one data row''),
            destructive = True \<rparr>"
    by (simp_all add: handleImport_def import_failed_def split: option.split)
next
  assume a: "2 \<le> length (lines_of text) \<and> fst (parse_rows uid (lines_of text)) = []"
  obtain recs errs where p: "parse_rows uid (lines_of text) = (recs, errs)"
    by (cases "parse_rows uid (lines_of text)")
  with a have "recs = []" by simp
  with a p show "sent (handleImport svc (Some uid) text s) = []"
    "final (handleImport svc (Some uid) text s) = s"
    "\<not> completed (handleImport svc (Some uid) text s)"
    "shown (handleImport svc (Some uid) text s) =
          \<lparr> title = ''Import Failed'', description = ''No valid records found in CSV'',
            destructive = True \<rparr>"
    by (simp_all add: handleImport_def import_failed_def)
next
  assume "CHR 0x0A \<notin> set header"
  then show "length (lines_of header) < 2" "length (lines_of (header @ [CHR 0x0A])) < 2"
    by (rule lines_of_header_only)+
qed simp_all

theorem fatal_before_persistence_witness:
  "sent (handleImport (mem_service False) (Some ''u1'') (''id,company_name'' @ [CHR 0x0A]) [(''a1'', ''Acme'')]) = []
   \<and> description (shown (handleImport (mem_service False) (Some ''u1'') (''id,company_name'' @ [CHR 0x0A]) [(''a1'', ''Acme'')]))
       = ''CSV file must have headers and at least one data row''
   \<and> sent (handleImport (mem_service False) (Some ''u1'') (''id,company_name'' @ [CHR 0x0A] @ ''1,'') [(''a1'', ''Acme'')]) = []
   \<and> description (shown (handleImport (mem_service False) (Some ''u1'') (''id,company_name'' @ [CHR 0x0A] @ ''1,'') [(''a1'', ''Acme'')]))
       = ''No valid records found in CSV''"
proof -
  have a: "CHR 0x0A \<notin> set ''id,company_name''" by simp
  have b: "2 \<le> length (lines_of (''id,company_name'' @ [CHR 0x0A] @ ''1,''))
      \<and> fst (parse_rows ''u1'' (lines_of (''id,company_name'' @ [CHR 0x0A] @ ''1,''))) = []"
    by code_simp
  note t1 = fatal_before_persistence [of "''id,company_name'' @ [CHR 0x0A]" "mem_service False"
      "Some ''u1''" "[(''a1'', ''Acme'')]" "''u1''" "''id,company_name''"]
  note t2 = fatal_before_persistence [of "''id,company_name'' @ [CHR 0x0A] @ ''1,''" "mem_service False"
      "Some ''u1''" "[(''a1'', ''Acme'')]" "''u1''" "''id,company_name''"]
  from t1 a have "length (lines_of (''id,company_name'' @ [CHR 0x0A])) < 2" by blast
  with t1 have 1: "sent (handleImport (mem_service False) (Some ''u1'') (''id,company_name'' @ [CHR 0x0A]) [(''a1'', ''Acme'')]) = []
   \<and> description (shown (handleImport (mem_service False) (Some ''u1'') (''id,company_name'' @ [CHR 0x0A]) [(''a1'', ''Acme'')]))
       = ''CSV file must have headers and at least one data row''"
    by simp
  from t2 b have 2: "sent (handleImport (mem_service False) (Some ''u1'') (''id,company_name'' @ [CHR 0x0A] @ ''1,'') [(''a1'', ''Acme'')]) = []
   \<and> description (shown (handleImport (mem_service False) (Some ''u1'') (''id,company_name'' @ [CHR 0x0A] @ ''1,'') [(''a1'', ''Acme'')]))
       = ''No valid records found in CSV''"
    by simp
  from 1 2 show ?thesis by simp
qed

subsection \<open>Properties of the reconciliation\<close>

lemma do_update_fields:
  "calls (do_update svc r target t) = calls t @ [Update (recordWithoutId r) (clock svc (store t)) target]"
  "successCount (do_update svc r target t) = successCount t"
  "updateCount (do_update svc r target t) =
     updateCount t + (if fst (update_by_id svc (recordWithoutId r) (clock svc (store t)) target (store t)) then 0 else 1)"
  "store (do_update svc r target t) = snd (update_by_id svc (recordWithoutId r) (clock svc (store t)) target (store t))"
  by (simp_all add: do_update_def Let_def split: prod.split)

lemma do_insert_fields:
  "calls (do_insert svc r t) = calls t @ [Insert (recordWithoutId r)]"
  "updateCount (do_insert svc r t) = updateCount t"
  "successCount (do_insert svc r t) =
     successCount t + (if fst (insert_row svc (recordWithoutId r) (store t)) then 0 else 1)"
  "store (do_insert svc r t) = snd (insert_row svc (recordWithoutId r) (store t))"
  by (simp_all add: do_insert_def Let_def split: prod.split)

lemma by_company_name_found:
  "select_by_company_name svc (company_name r) (store t) = (Some e, s') \<Longrightarrow>
   by_company_name svc r t =
     do_update svc r e (t\<lparr> calls := calls t @ [SelectByCompanyName (company_name r)], store := s' \<rparr>)"
  by (simp add: by_company_name_def)

lemma by_company_name_not_found:
  "select_by_company_name svc (company_name r) (store t) = (None, s') \<Longrightarrow>
   by_company_name svc r t =
     do_insert svc r (t\<lparr> calls := calls t @ [SelectByCompanyName (company_name r)], store := s' \<rparr>)"
  by (simp add: by_company_name_def)

lemma reconcile_record_stale:
  "id_r r = Some ident \<Longrightarrow> ident \<noteq> [] \<Longrightarrow> select_by_id svc ident (store t) = (None, s1) \<Longrightarrow>
   reconcile_record svc r t =
     by_company_name svc r (t\<lparr> calls := calls t @ [SelectById ident], store := s1 \<rparr>)"
  by (simp add: reconcile_record_def truthy_def)

lemma reconcile_record_by_id:
  "id_r r = Some ident \<Longrightarrow> ident \<noteq> [] \<Longrightarrow> select_by_id svc ident (store t) = (Some e, s1) \<Longrightarrow>
   reconcile_record svc r t =
     do_update svc r ident (t\<lparr> calls := calls t @ [SelectById ident], store := s1 \<rparr>)"
  by (simp add: reconcile_record_def truthy_def)

lemma reconcile_record_no_id:
  "\<not> truthy (id_r r) \<Longrightarrow> reconcile_record svc r t = by_company_name svc r t"
  by (simp add: reconcile_record_def)

lemma recordWithoutId_fields:
  "recordWithoutId r =
     \<lparr> company_name = company_name r, email = email r, region = region r, country = country r,
       website = website r, company_type = company_type r, tags = tags r, status = status r,
       notes = notes r, industry = industry r, phone = phone r, created_by = created_by r,
       account_owner = account_owner r, modified_by = modified_by r \<rparr>"
  by (simp add: recordWithoutId_def account_fields.truncate_def)

lemma reconcile_all_append:
  "reconcile_all svc (xs @ ys) t = reconcile_all svc ys (reconcile_all svc xs t)"
  by (induction xs arbitrary: t) simp_all

lemma by_company_name_calls_prefix: "\<exists>more. calls (by_company_name svc r t) = calls t @ more"
  by (cases "select_by_company_name svc (company_name r) (store t)")
    (auto simp: by_company_name_def Let_def do_update_fields do_insert_fields split: option.split)

lemma reconcile_record_calls_prefix: "\<exists>more. calls (reconcile_record svc r t) = calls t @ more"
proof (cases "truthy (id_r r)")
  case False
  then show ?thesis
    using by_company_name_calls_prefix [of svc r t] by (simp add: reconcile_record_def)
next
  case True
  obtain e s' where s: "select_by_id svc (the (id_r r)) (store t) = (e, s')"
    by (cases "select_by_id svc (the (id_r r)) (store t)")
  show ?thesis
  proof (cases e)
    case None
    obtain more where "calls (by_company_name svc r
        (t\<lparr> calls := calls t @ [SelectById (the (id_r r))], store := s' \<rparr>))
      = calls (t\<lparr> calls := calls t @ [SelectById (the (id_r r))], store := s' \<rparr>) @ more"
      using by_company_name_calls_prefix by blast
    with True s None show ?thesis
      by (simp add: reconcile_record_def Let_def)
  next
    case (Some a)
    with True s show ?thesis
      by (simp add: reconcile_record_def Let_def do_update_fields)
  qed
qed

lemma reconcile_all_calls_prefix: "\<exists>more. calls (reconcile_all svc rs t) = calls t @ more"
proof (induction rs arbitrary: t)
  case Nil
  then show ?case by simp
next
  case (Cons r rs)
  obtain m1 where 1: "calls (reconcile_record svc r t) = calls t @ m1"
    using reconcile_record_calls_prefix by blast
  obtain m2 where "calls (reconcile_all svc rs (reconcile_record svc r t))
      = calls (reconcile_record svc r t) @ m2"
    using Cons.IH by blast
  with 1 show ?case by simp
qed

lemma handleImport_outcome:
  assumes "2 \<le> length (lines_of csv)" and "fst (parse_rows uid (lines_of csv)) \<noteq> []"
  shows "handleImport svc (Some uid) csv s =
     (let t = reconcile_all svc (fst (parse_rows uid (lines_of csv)))
                \<lparr> successCount = 0, updateCount = 0, calls = [], store = s \<rparr>
      in \<lparr> shown = \<lparr> title = ''Import Successful'',
                       description = import_summary (successCount t) (updateCount t)
                                       (length (snd (parse_rows uid (lines_of csv)))),
                       destructive = False \<rparr>,
             sent = calls t, final = store t, completed = True \<rparr>)"
proof -
  obtain recs errs where p: "parse_rows uid (lines_of csv) = (recs, errs)"
    by (cases "parse_rows uid (lines_of csv)")
  with assms have "recs \<noteq> []" by simp
  with assms(1) p show ?thesis
    by (simp add: handleImport_def Let_def)
qed

text \<open>
  C2. A validated record whose identifier matches no stored account does not make the
  import fail. Wherever the record stands among the validated records of the file, the
  import sends, after the requests of the records before it, the lookup by identifier,
  then the lookup by company name, then an update of the account found if there is one
  and otherwise an insert of the fields of the record without the identifier; it goes
  on with the records after it and completes with the summary of the tallies.
\<close>

theorem stale_identifier_falls_back:
  assumes "id_r r = Some ident" and "ident \<noteq> []"
    and "select_by_id svc ident (store t) = (None, s1)"
    and "select_by_company_name svc (company_name r) s1 = (existing, s2)"
  shows "calls (reconcile_record svc r t) =
           calls t @ [SelectById ident, SelectByCompanyName (company_name r),
                      (case existing of
                         Some e \<Rightarrow> Update (recordWithoutId r) (clock svc s2) e
                       | None \<Rightarrow> Insert (recordWithoutId r))]
    \<and> successCount (reconcile_record svc r t) =
         (case existing of
            Some e \<Rightarrow> successCount t
          | None \<Rightarrow> successCount t + (if fst (insert_row svc (recordWithoutId r) s2) then 0 else 1))
    \<and> updateCount (reconcile_record svc r t) =
         (case existing of
            Some e \<Rightarrow> updateCount t
                       + (if fst (update_by_id svc (recordWithoutId r) (clock svc s2) e s2) then 0 else 1)
          | None \<Rightarrow> updateCount t)
    \<and> store (reconcile_record svc r t) =
         (case existing of
            Some e \<Rightarrow> snd (update_by_id svc (recordWithoutId r) (clock svc s2) e s2)
          | None \<Rightarrow> snd (insert_row svc (recordWithoutId r) s2))
    \<and> recordWithoutId r =
         \<lparr> company_name = company_name r, email = email r, region = region r, country = country r,
           website = website r, company_type = company_type r, tags = tags r, status = status r,
           notes = notes r, industry = industry r, phone = phone r, created_by = created_by r,
           account_owner = account_owner r, modified_by = modified_by r \<rparr>
    \<and> (2 \<le> length (lines_of csv) \<and> fst (parse_rows uid (lines_of csv)) = pre @ r # post
        \<and> t = reconcile_all svc pre \<lparr> successCount = 0, updateCount = 0, calls = [], store = s \<rparr> \<longrightarrow>
         completed (handleImport svc (Some uid) csv s)
         \<and> title (shown (handleImport svc (Some uid) csv s)) = ''Import Successful''
         \<and> sent (handleImport svc (Some uid) csv s) =
             calls (reconcile_all svc post (reconcile_record svc r t))
         \<and> final (handleImport svc (Some uid) csv s) =
             store (reconcile_all svc post (reconcile_record svc r t))
         \<and> description (shown (handleImport svc (Some uid) csv s)) =
             import_summary (successCount (reconcile_all svc post (reconcile_record svc r t)))
               (updateCount (reconcile_all svc post (reconcile_record svc r t)))
               (length (snd (parse_rows uid (lines_of csv))))
         \<and> (\<exists>more. sent (handleImport svc (Some uid) csv s) =
               calls t @ [SelectById ident, SelectByCompanyName (company_name r),
                          (case existing of
                             Some e \<Rightarrow> Update (recordWithoutId r) (clock svc s2) e
                           | None \<Rightarrow> Insert (recordWithoutId r))] @ more))"
proof -
  let ?t1 = "t\<lparr> calls := calls t @ [SelectById ident], store := s1 \<rparr>"
  let ?three = "[SelectById ident, SelectByCompanyName (company_name r),
                      (case existing of
                         Some e \<Rightarrow> Update (recordWithoutId r) (clock svc s2) e
                       | None \<Rightarrow> Insert (recordWithoutId r))]"
  have r: "reconcile_record svc r t = by_company_name svc r ?t1"
    using assms(1-3) by (rule reconcile_record_stale)
  have s: "select_by_company_name svc (company_name r) (store ?t1) = (existing, s2)"
    using assms(4) by simp
  have body: "calls (reconcile_record svc r t) = calls t @ ?three
    \<and> successCount (reconcile_record svc r t) =
         (case existing of
            Some e \<Rightarrow> successCount t
          | None \<Rightarrow> successCount t + (if fst (insert_row svc (recordWithoutId r) s2) then 0 else 1))
    \<and> updateCount (reconcile_record svc r t) =
         (case existing of
            Some e \<Rightarrow> updateCount t
                       + (if fst (update_by_id svc (recordWithoutId r) (clock svc s2) e s2) then 0 else 1)
          | None \<Rightarrow> updateCount t)
    \<and> store (reconcile_record svc r t) =
         (case existing of
            Some e \<Rightarrow> snd (update_by_id svc (recordWithoutId r) (clock svc s2) e s2)
          | None \<Rightarrow> snd (insert_row svc (recordWithoutId r) s2))"
  proof (cases existing)
    case None
    with s have "by_company_name svc r ?t1 =
        do_insert svc r (?t1\<lparr> calls := calls ?t1 @ [SelectByCompanyName (company_name r)], store := s2 \<rparr>)"
      by (intro by_company_name_not_found) simp
    with r None show ?thesis
      by (simp add: do_insert_fields)
  next
    case (Some e)
    with s have "by_company_name svc r ?t1 =
        do_update svc r e (?t1\<lparr> calls := calls ?t1 @ [SelectByCompanyName (company_name r)], store := s2 \<rparr>)"
      by (intro by_company_name_found) simp
    with r Some show ?thesis
      by (simp add: do_update_fields)
  qed
  have whole: "completed (handleImport svc (Some uid) csv s)
         \<and> title (shown (handleImport svc (Some uid) csv s)) = ''Import Successful''
         \<and> sent (handleImport svc (Some uid) csv s) =
             calls (reconcile_all svc post (reconcile_record svc r t))
         \<and> final (handleImport svc (Some uid) csv s) =
             store (reconcile_all svc post (reconcile_record svc r t))
         \<and> description (shown (handleImport svc (Some uid) csv s)) =
             import_summary (successCount (reconcile_all svc post (reconcile_record svc r t)))
               (updateCount (reconcile_all svc post (reconcile_record svc r t)))
               (length (snd (parse_rows uid (lines_of csv))))
         \<and> (\<exists>more. sent (handleImport svc (Some uid) csv s) = calls t @ ?three @ more)"
    if a: "2 \<le> length (lines_of csv) \<and> fst (parse_rows uid (lines_of csv)) = pre @ r # post
        \<and> t = reconcile_all svc pre \<lparr> successCount = 0, updateCount = 0, calls = [], store = s \<rparr>"
  proof -
    from a have ne: "fst (parse_rows uid (lines_of csv)) \<noteq> []" by simp
    from a have all: "reconcile_all svc (fst (parse_rows uid (lines_of csv)))
          \<lparr> successCount = 0, updateCount = 0, calls = [], store = s \<rparr>
        = reconcile_all svc post (reconcile_record svc r t)"
      by (simp add: reconcile_all_append)
    from a have h: "handleImport svc (Some uid) csv s =
       (let t' = reconcile_all svc post (reconcile_record svc r t)
        in \<lparr> shown = \<lparr> title = ''Import Successful'',
                       description = import_summary (successCount t') (updateCount t')
                                       (length (snd (parse_rows uid (lines_of csv)))),
                       destructive = False \<rparr>,
             sent = calls t', final = store t', completed = True \<rparr>)"
      using handleImport_outcome [OF _ ne, of svc s] unfolding all by simp
    obtain more where "calls (reconcile_all svc post (reconcile_record svc r t))
        = calls (reconcile_record svc r t) @ more"
      using reconcile_all_calls_prefix by blast
    with body have "calls (reconcile_all svc post (reconcile_record svc r t)) = calls t @ ?three @ more"
      by simp
    then have "\<exists>more. calls (reconcile_all svc post (reconcile_record svc r t)) = calls t @ ?three @ more"
      by blast
    with h show ?thesis by (simp add: Let_def)
  qed
  have fields: "recordWithoutId r =
         \<lparr> company_name = company_name r, email = email r, region = region r, country = country r,
           website = website r, company_type = company_type r, tags = tags r, status = status r,
           notes = notes r, industry = industry r, phone = phone r, created_by = created_by r,
           account_owner = account_owner r, modified_by = modified_by r \<rparr>"
    by (rule recordWithoutId_fields)
  from body fields whole show ?thesis
    by blast
qed

theorem stale_identifier_falls_back_witness:
  "(\<exists>more. sent (handleImport (mem_service False) (Some ''u1'')
      (''id,company_name'' @ [CHR 0x0A] @ '',Bolt'' @ [CHR 0x0A] @ ''zz,Acme'' @ [CHR 0x0A] @ ''yy,Core'')
      [(''a1'', ''Acme'')])
      = [SelectByCompanyName ''Bolt'',
       Insert (\<lparr> company_name = ''Bolt'', email = None, region = None, country = None, website = None,
        company_type = None, tags = None, status = ''New'', notes = None, industry = None, phone = None,
        created_by = ''u1'', account_owner = ''u1'', modified_by = ''u1'' \<rparr>),
       SelectById ''zz'', SelectByCompanyName ''Acme'',
       Update (\<lparr> company_name = ''Acme'', email = None, region = None, country = None, website = None,
        company_type = None, tags = None, status = ''New'', notes = None, industry = None, phone = None,
        created_by = ''u1'', account_owner = ''u1'', modified_by = ''u1'' \<rparr>) ''2024-01-01T00:00:00.000Z'' ''a1''] @ more)
   \<and> sent (handleImport (mem_service False) (Some ''u1'')
      (''id,company_name'' @ [CHR 0x0A] @ '',Bolt'' @ [CHR 0x0A] @ ''zz,Acme'' @ [CHR 0x0A] @ ''yy,Core'')
      [(''a1'', ''Acme'')])
      = [SelectByCompanyName ''Bolt'',
       Insert (\<lparr> company_name = ''Bolt'', email = None, region = None, country = None, website = None,
        company_type = None, tags = None, status = ''New'', notes = None, industry = None, phone = None,
        created_by = ''u1'', account_owner = ''u1'', modified_by = ''u1'' \<rparr>),
       SelectById ''zz'', SelectByCompanyName ''Acme'',
       Update (\<lparr> company_name = ''Acme'', email = None, region = None, country = None, website = None,
        company_type = None, tags = None, status = ''New'', notes = None, industry = None, phone = None,
        created_by = ''u1'', account_owner = ''u1'', modified_by = ''u1'' \<rparr>) ''2024-01-01T00:00:00.000Z'' ''a1'',
       SelectById ''yy'', SelectByCompanyName ''Core'',
       Insert (\<lparr> company_name = ''Core'', email = None, region = None, country = None, website = None,
        company_type = None, tags = None, status = ''New'', notes = None, industry = None, phone = None,
        created_by = ''u1'', account_owner = ''u1'', modified_by = ''u1'' \<rparr>)]
   \<and> completed (handleImport (mem_service False) (Some ''u1'')
      (''id,company_name'' @ [CHR 0x0A] @ '',Bolt'' @ [CHR 0x0A] @ ''zz,Acme'' @ [CHR 0x0A] @ ''yy,Core'')
      [(''a1'', ''Acme'')])
   \<and> description (shown (handleImport (mem_service False) (Some ''u1'')
      (''id,company_name'' @ [CHR 0x0A] @ '',Bolt'' @ [CHR 0x0A] @ ''zz,Acme'' @ [CHR 0x0A] @ ''yy,Core'')
      [(''a1'', ''Acme'')]))
      = ''Created 2 new accounts, updated 1 existing accounts''"
proof -
  let ?svc = "mem_service False"
  let ?csv = "(''id,company_name'' @ [CHR 0x0A] @ '',Bolt'' @ [CHR 0x0A] @ ''zz,Acme'' @ [CHR 0x0A] @ ''yy,Core'')"
  let ?b = "\<lparr> company_name = ''Bolt'', email = None, region = None, country = None, website = None,
        company_type = None, tags = None, status = ''New'', notes = None, industry = None, phone = None,
        created_by = ''u1'', account_owner = ''u1'', modified_by = ''u1'', id_r = None \<rparr>"
  let ?a = "\<lparr> company_name = ''Acme'', email = None, region = None, country = None, website = None,
        company_type = None, tags = None, status = ''New'', notes = None, industry = None, phone = None,
        created_by = ''u1'', account_owner = ''u1'', modified_by = ''u1'', id_r = Some ''zz'' \<rparr>"
  let ?c = "\<lparr> company_name = ''Core'', email = None, region = None, country = None, website = None,
        company_type = None, tags = None, status = ''New'', notes = None, industry = None, phone = None,
        created_by = ''u1'', account_owner = ''u1'', modified_by = ''u1'', id_r = Some ''yy'' \<rparr>"
  let ?t0 = "\<lparr> successCount = 0, updateCount = 0, calls = [], store = [(''a1'', ''Acme'')] \<rparr>"
  let ?ta = "reconcile_all ?svc [?b] ?t0"
  let ?tc = "reconcile_all ?svc [?b, ?a] ?t0"
  have ta: "?ta = \<lparr> successCount = 1, updateCount = 0,
      calls = [SelectByCompanyName ''Bolt'',
       Insert (\<lparr> company_name = ''Bolt'', email = None, region = None, country = None, website = None,
        company_type = None, tags = None, status = ''New'', notes = None, industry = None, phone = None,
        created_by = ''u1'', account_owner = ''u1'', modified_by = ''u1'' \<rparr>)],
      store = [(''a1'', ''Acme''), (''new-1'', ''Bolt'')] \<rparr>"
    by code_simp
  have tc: "?tc = \<lparr> successCount = 1, updateCount = 1,
      calls = [SelectByCompanyName ''Bolt'',
       Insert (\<lparr> company_name = ''Bolt'', email = None, region = None, country = None, website = None,
        company_type = None, tags = None, status = ''New'', notes = None, industry = None, phone = None,
        created_by = ''u1'', account_owner = ''u1'', modified_by = ''u1'' \<rparr>),
       SelectById ''zz'', SelectByCompanyName ''Acme'',
       Update (\<lparr> company_name = ''Acme'', email = None, region = None, country = None, website = None,
        company_type = None, tags = None, status = ''New'', notes = None, industry = None, phone = None,
        created_by = ''u1'', account_owner = ''u1'', modified_by = ''u1'' \<rparr>) ''2024-01-01T00:00:00.000Z'' ''a1''],
      store = [(''a1'', ''Acme''), (''new-1'', ''Bolt'')] \<rparr>"
    by code_simp
  have rows: "2 \<le> length (lines_of ?csv)" "fst (parse_rows ''u1'' (lines_of ?csv)) = [?b, ?a, ?c]"
    "length (snd (parse_rows ''u1'' (lines_of ?csv))) = 0"
    by code_simp+
  have ia: "id_r ?a = Some ''zz''" and ic: "id_r ?c = Some ''yy''" by simp_all
  have z: "''zz'' \<noteq> []" and y: "''yy'' \<noteq> []" by simp_all
  have sa: "select_by_id ?svc ''zz'' (store ?ta) = (None, [(''a1'', ''Acme''), (''new-1'', ''Bolt'')])"
    unfolding ta by (simp add: mem_service_def)
  have sc: "select_by_id ?svc ''yy'' (store ?tc) = (None, [(''a1'', ''Acme''), (''new-1'', ''Bolt'')])"
    unfolding tc by (simp add: mem_service_def)
  have na: "select_by_company_name ?svc (company_name ?a) [(''a1'', ''Acme''), (''new-1'', ''Bolt'')] = (Some ''a1'', [(''a1'', ''Acme''), (''new-1'', ''Bolt'')])"
    by (simp add: mem_service_def)
  have nc: "select_by_company_name ?svc (company_name ?c) [(''a1'', ''Acme''), (''new-1'', ''Bolt'')] = (None, [(''a1'', ''Acme''), (''new-1'', ''Bolt'')])"
    by (simp add: mem_service_def)
  have ck: "clock ?svc st = ''2024-01-01T00:00:00.000Z''" for st
    by (simp add: mem_service_def)
  have pa: "2 \<le> length (lines_of ?csv) \<and> fst (parse_rows ''u1'' (lines_of ?csv)) = [?b] @ ?a # [?c]
      \<and> ?ta = reconcile_all ?svc [?b] \<lparr> successCount = 0, updateCount = 0, calls = [], store = [(''a1'', ''Acme'')] \<rparr>"
    using rows by simp
  have pc: "2 \<le> length (lines_of ?csv) \<and> fst (parse_rows ''u1'' (lines_of ?csv)) = [?b, ?a] @ ?c # []
      \<and> ?tc = reconcile_all ?svc [?b, ?a] \<lparr> successCount = 0, updateCount = 0, calls = [], store = [(''a1'', ''Acme'')] \<rparr>"
    using rows by simp
  note A = stale_identifier_falls_back [OF ia z sa na, of ?csv "''u1''" "[?b]" "[?c]" "[(''a1'', ''Acme'')]"]
  note C = stale_identifier_falls_back [OF ic y sc nc, of ?csv "''u1''" "[?b, ?a]" "[]" "[(''a1'', ''Acme'')]"]
  note Aq = A [THEN conjunct2, THEN conjunct2, THEN conjunct2, THEN conjunct2, THEN conjunct2,
      THEN mp, OF pa]
  note Cq = C [THEN conjunct2, THEN conjunct2, THEN conjunct2, THEN conjunct2, THEN conjunct2,
      THEN mp, OF pc]
  have 1: "\<exists>more. sent (handleImport ?svc (Some ''u1'') ?csv [(''a1'', ''Acme'')])
      = calls ?ta @ [SelectById ''zz'', SelectByCompanyName (company_name ?a),
           Update (recordWithoutId ?a) (clock ?svc [(''a1'', ''Acme''), (''new-1'', ''Bolt'')]) ''a1''] @ more"
    using Aq [THEN conjunct2, THEN conjunct2, THEN conjunct2, THEN conjunct2, THEN conjunct2]
    by (simp only: option.case)
  have 2: "sent (handleImport ?svc (Some ''u1'') ?csv [(''a1'', ''Acme'')]) = calls (reconcile_record ?svc ?c ?tc)"
    using Cq [THEN conjunct2, THEN conjunct2, THEN conjunct1]
    by (simp only: reconcile_all.simps(1))
  have 3: "calls (reconcile_record ?svc ?c ?tc) = calls ?tc @ [SelectById ''yy'', SelectByCompanyName (company_name ?c),
           Insert (recordWithoutId ?c)]"
    using C [THEN conjunct1] by (simp only: option.case)
  have 4: "completed (handleImport ?svc (Some ''u1'') ?csv [(''a1'', ''Acme'')])"
    using Cq [THEN conjunct1] .
  have 5: "description (shown (handleImport ?svc (Some ''u1'') ?csv [(''a1'', ''Acme'')]))
        = import_summary (successCount (reconcile_record ?svc ?c ?tc)) (updateCount (reconcile_record ?svc ?c ?tc))
            (length (snd (parse_rows ''u1'' (lines_of ?csv))))"
    using Cq [THEN conjunct2, THEN conjunct2, THEN conjunct2, THEN conjunct2, THEN conjunct1]
    by (simp only: reconcile_all.simps(1))
  have 6: "successCount (reconcile_record ?svc ?c ?tc)
        = successCount ?tc + (if fst (insert_row ?svc (recordWithoutId ?c) [(''a1'', ''Acme''), (''new-1'', ''Bolt'')]) then 0 else 1)"
    using C [THEN conjunct2, THEN conjunct1] by (simp only: option.case)
  have 7: "updateCount (reconcile_record ?svc ?c ?tc) = updateCount ?tc"
    using C [THEN conjunct2, THEN conjunct2, THEN conjunct1] by (simp only: option.case)
  have ins: "fst (insert_row ?svc f st) = False" for f st
    by (simp add: mem_service_def)
  have "import_summary 2 1 0 = ''Created 2 new accounts, updated 1 existing accounts''"
    by (simp add: import_summary_def show_nat.simps digit_char_def)
  then have sum: "import_summary (Suc (Suc 0)) (Suc 0) 0 = ''Created 2 new accounts, updated 1 existing accounts''"
    by (simp add: numeral_2_eq_2)
  from 1 have f1: "\<exists>more. sent (handleImport ?svc (Some ''u1'') ?csv [(''a1'', ''Acme'')])
      = [SelectByCompanyName ''Bolt'',
       Insert (\<lparr> company_name = ''Bolt'', email = None, region = None, country = None, website = None,
        company_type = None, tags = None, status = ''New'', notes = None, industry = None, phone = None,
        created_by = ''u1'', account_owner = ''u1'', modified_by = ''u1'' \<rparr>),
       SelectById ''zz'', SelectByCompanyName ''Acme'',
       Update (\<lparr> company_name = ''Acme'', email = None, region = None, country = None, website = None,
        company_type = None, tags = None, status = ''New'', notes = None, industry = None, phone = None,
        created_by = ''u1'', account_owner = ''u1'', modified_by = ''u1'' \<rparr>) ''2024-01-01T00:00:00.000Z'' ''a1''] @ more"
    unfolding ta by (simp add: ck recordWithoutId_fields)
  from 2 3 have f2: "sent (handleImport ?svc (Some ''u1'') ?csv [(''a1'', ''Acme'')])
      = [SelectByCompanyName ''Bolt'',
       Insert (\<lparr> company_name = ''Bolt'', email = None, region = None, country = None, website = None,
        company_type = None, tags = None, status = ''New'', notes = None, industry = None, phone = None,
        created_by = ''u1'', account_owner = ''u1'', modified_by = ''u1'' \<rparr>),
       SelectById ''zz'', SelectByCompanyName ''Acme'',
       Update (\<lparr> company_name = ''Acme'', email = None, region = None, country = None, website = None,
        company_type = None, tags = None, status = ''New'', notes = None, industry = None, phone = None,
        created_by = ''u1'', account_owner = ''u1'', modified_by = ''u1'' \<rparr>) ''2024-01-01T00:00:00.000Z'' ''a1'',
       SelectById ''yy'', SelectByCompanyName ''Core'',
       Insert (\<lparr> company_name = ''Core'', email = None, region = None, country = None, website = None,
        company_type = None, tags = None, status = ''New'', notes = None, industry = None, phone = None,
        created_by = ''u1'', account_owner = ''u1'', modified_by = ''u1'' \<rparr>)]"
    unfolding tc by (simp add: recordWithoutId_fields)
  from 5 6 7 have f5: "description (shown (handleImport ?svc (Some ''u1'') ?csv [(''a1'', ''Acme'')]))
      = ''Created 2 new accounts, updated 1 existing accounts''"
    unfolding tc using rows(3) ins sum by simp
  from f1 f2 4 f5 show ?thesis by simp
qed

text \<open>
  C3, as amended. A record routed to the update path, by its identifier or by its
  company name, counts toward the running update tally exactly when the update call
  reports no error; it never counts as a creation.
\<close>

theorem update_tally_counts_successes:
  "(id_r r = Some ident \<and> ident \<noteq> [] \<and> select_by_id svc ident (store t) = (Some e, s1) \<longrightarrow>
      updateCount (reconcile_record svc r t) =
        updateCount t + (if fst (update_by_id svc (recordWithoutId r) (clock svc s1) ident s1) then 0 else 1)
      \<and> successCount (reconcile_record svc r t) = successCount t)
   \<and> ((\<not> truthy (id_r r) \<and> s1 = store t
         \<or> id_r r = Some ident \<and> ident \<noteq> [] \<and> select_by_id svc ident (store t) = (None, s1))
        \<and> select_by_company_name svc (company_name r) s1 = (Some e, s2) \<longrightarrow>
      updateCount (reconcile_record svc r t) =
        updateCount t + (if fst (update_by_id svc (recordWithoutId r) (clock svc s2) e s2) then 0 else 1)
      \<and> successCount (reconcile_record svc r t) = successCount t)"
proof (intro conjI impI)
  assume "id_r r = Some ident \<and> ident \<noteq> [] \<and> select_by_id svc ident (store t) = (Some e, s1)"
  then have "reconcile_record svc r t =
      do_update svc r ident (t\<lparr> calls := calls t @ [SelectById ident], store := s1 \<rparr>)"
    by (intro reconcile_record_by_id) simp_all
  then show "updateCount (reconcile_record svc r t) =
        updateCount t + (if fst (update_by_id svc (recordWithoutId r) (clock svc s1) ident s1) then 0 else 1)"
    and "successCount (reconcile_record svc r t) = successCount t"
    by (simp_all add: do_update_fields)
next
  assume a: "(\<not> truthy (id_r r) \<and> s1 = store t
         \<or> id_r r = Some ident \<and> ident \<noteq> [] \<and> select_by_id svc ident (store t) = (None, s1))
        \<and> select_by_company_name svc (company_name r) s1 = (Some e, s2)"
  then have n: "select_by_company_name svc (company_name r) s1 = (Some e, s2)" by simp
  from a have "\<exists>cs. reconcile_record svc r t = by_company_name svc r (t\<lparr> calls := cs, store := s1 \<rparr>)"
  proof (elim conjE disjE)
    assume "\<not> truthy (id_r r)" "s1 = store t"
    then have "reconcile_record svc r t = by_company_name svc r (t\<lparr> calls := calls t, store := s1 \<rparr>)"
      by (simp add: reconcile_record_no_id)
    then show ?thesis by blast
  next
    assume "id_r r = Some ident" "ident \<noteq> []" "select_by_id svc ident (store t) = (None, s1)"
    then have "reconcile_record svc r t =
        by_company_name svc r (t\<lparr> calls := calls t @ [SelectById ident], store := s1 \<rparr>)"
      by (rule reconcile_record_stale)
    then show ?thesis by blast
  qed
  then obtain cs where r: "reconcile_record svc r t = by_company_name svc r (t\<lparr> calls := cs, store := s1 \<rparr>)"
    by blast
  have "by_company_name svc r (t\<lparr> calls := cs, store := s1 \<rparr>) =
      do_update svc r e (t\<lparr> calls := cs, store := s1 \<rparr>
        \<lparr> calls := calls (t\<lparr> calls := cs, store := s1 \<rparr>) @ [SelectByCompanyName (company_name r)], store := s2 \<rparr>)"
    using n by (intro by_company_name_found) simp
  with r show "updateCount (reconcile_record svc r t) =
        updateCount t + (if fst (update_by_id svc (recordWithoutId r) (clock svc s2) e s2) then 0 else 1)"
    and "successCount (reconcile_record svc r t) = successCount t"
    by (simp_all add: do_update_fields)
qed

theorem update_tally_counts_successes_witness:
  "updateCount (reconcile_record (mem_service True)
      (\<lparr> company_name = ''Acme'', email = None, region = None, country = None, website = None,
        company_type = None, tags = None, status = ''New'', notes = None, industry = None, phone = None,
        created_by = ''u1'', account_owner = ''u1'', modified_by = ''u1'', id_r = Some ''a1'' \<rparr>)
      \<lparr> successCount = 0, updateCount = 0, calls = [], store = [(''a1'', ''Acme'')] \<rparr>) = 0
   \<and> updateCount (reconcile_record (mem_service False)
      (\<lparr> company_name = ''Acme'', email = None, region = None, country = None, website = None,
        company_type = None, tags = None, status = ''New'', notes = None, industry = None, phone = None,
        created_by = ''u1'', account_owner = ''u1'', modified_by = ''u1'', id_r = Some ''a1'' \<rparr>)
      \<lparr> successCount = 0, updateCount = 0, calls = [], store = [(''a1'', ''Acme'')] \<rparr>) = 1
   \<and> updateCount (reconcile_record (mem_service True)
      (\<lparr> company_name = ''Acme'', email = None, region = None, country = None, website = None,
        company_type = None, tags = None, status = ''New'', notes = None, industry = None, phone = None,
        created_by = ''u1'', account_owner = ''u1'', modified_by = ''u1'', id_r = None \<rparr>)
      \<lparr> successCount = 0, updateCount = 0, calls = [], store = [(''a1'', ''Acme'')] \<rparr>) = 0
   \<and> updateCount (reconcile_record (mem_service False)
      (\<lparr> company_name = ''Acme'', email = None, region = None, country = None, website = None,
        company_type = None, tags = None, status = ''New'', notes = None, industry = None, phone = None,
        created_by = ''u1'', account_owner = ''u1'', modified_by = ''u1'', id_r = None \<rparr>)
      \<lparr> successCount = 0, updateCount = 0, calls = [], store = [(''a1'', ''Acme'')] \<rparr>) = 1"
proof -
  let ?t = "\<lparr> successCount = 0, updateCount = 0, calls = [], store = [(''a1'', ''Acme'')] \<rparr>"
  let ?i = "\<lparr> company_name = ''Acme'', email = None, region = None, country = None, website = None,
        company_type = None, tags = None, status = ''New'', notes = None, industry = None, phone = None,
        created_by = ''u1'', account_owner = ''u1'', modified_by = ''u1'', id_r = Some ''a1'' \<rparr>"
  let ?n = "\<lparr> company_name = ''Acme'', email = None, region = None, country = None, website = None,
        company_type = None, tags = None, status = ''New'', notes = None, industry = None, phone = None,
        created_by = ''u1'', account_owner = ''u1'', modified_by = ''u1'', id_r = None \<rparr>"
  have s: "select_by_id (mem_service b) ''a1'' (store ?t) = (Some ''a1'', [(''a1'', ''Acme'')])" for b
    by (simp add: mem_service_def)
  have m: "select_by_company_name (mem_service b) (company_name ?n) [(''a1'', ''Acme'')]
      = (Some ''a1'', [(''a1'', ''Acme'')])" for b
    by (simp add: mem_service_def)
  have u: "fst (update_by_id (mem_service b) f ts i st) = b" for b f ts i st
    by (simp add: mem_service_def)
  note t1 = update_tally_counts_successes [of ?i "''a1''" "mem_service True" ?t "''a1''" "[(''a1'', ''Acme'')]"]
  note t2 = update_tally_counts_successes [of ?i "''a1''" "mem_service False" ?t "''a1''" "[(''a1'', ''Acme'')]"]
  note t3 = update_tally_counts_successes [of ?n _ "mem_service True" ?t "''a1''" "[(''a1'', ''Acme'')]" "[(''a1'', ''Acme'')]"]
  note t4 = update_tally_counts_successes [of ?n _ "mem_service False" ?t "''a1''" "[(''a1'', ''Acme'')]" "[(''a1'', ''Acme'')]"]
  from t1 s u have 1: "updateCount (reconcile_record (mem_service True) ?i ?t) = 0" by simp
  from t2 s u have 2: "updateCount (reconcile_record (mem_service False) ?i ?t) = 1" by simp
  from t3 m u have 3: "updateCount (reconcile_record (mem_service True) ?n ?t) = 0" by (simp add: truthy_def)
  from t4 m u have 4: "updateCount (reconcile_record (mem_service False) ?n ?t) = 1" by (simp add: truthy_def)
  from 1 2 3 4 show ?thesis by simp
qed

text \<open>
  C3 as stated fails: when the update call reports an error the record is not counted.
  Below, the row is matched by its identifier, the update is sent and fails, and the
  summary reports no update.
\<close>

theorem failed_update_not_counted:
  "sent (handleImport (mem_service True) (Some ''u1'') (''id,company_name'' @ [CHR 0x0A] @ ''a1,Acme'') [(''a1'', ''Acme'')])
     = [SelectById ''a1'',
        Update (\<lparr> company_name = ''Acme'', email = None, region = None, country = None, website = None,
        company_type = None, tags = None, status = ''New'', notes = None, industry = None, phone = None,
        created_by = ''u1'', account_owner = ''u1'', modified_by = ''u1'' \<rparr>) ''2024-01-01T00:00:00.000Z'' ''a1'']
   \<and> fst (update_by_id (mem_service True) (\<lparr> company_name = ''Acme'', email = None, region = None, country = None, website = None,
        company_type = None, tags = None, status = ''New'', notes = None, industry = None, phone = None,
        created_by = ''u1'', account_owner = ''u1'', modified_by = ''u1'' \<rparr>) ''2024-01-01T00:00:00.000Z'' ''a1'' [(''a1'', ''Acme'')])
   \<and> description (shown (handleImport (mem_service True) (Some ''u1'') (''id,company_name'' @ [CHR 0x0A] @ ''a1,Acme'') [(''a1'', ''Acme'')]))
     = ''Created 0 new accounts, updated 0 existing accounts''"
  by code_simp

subsection \<open>Properties of handleExport\<close>

lemma includes_char_set: "includes_char s c = (c \<in> set s)"
  by (induction s) auto

lemma double_quotes_concat:
  "double_quotes s = concat (map (\<lambda>c. if c = CHR 0x22 then [CHR 0x22, CHR 0x22] else [c]) s)"
  by (induction s) simp_all

lemma join_js_strings: "join_js sep (map JStr ts) = join sep ts"
  by (induction sep ts rule: join.induct) simp_all

lemma join_Cons: "join sep (x # xs) = x @ concat (map (\<lambda>y. sep @ y) xs)"
  by (induction xs arbitrary: x) simp_all

text \<open>
  C7. Every row of the export is, for each of the published columns in order, the
  rendering of the value the account holds under that column, joined by commas, and
  the file is the header line followed by one such row for each account. In the
  rendering a null or undefined value is the empty field, not the word null; the array
  of tags is rendered as the text of its elements joined by semicolons; and a text that
  holds a comma, a double quote or a line feed is wrapped in double quotes with every
  double quote inside doubled, any other text being written as it is.
\<close>

theorem export_field_rendering:
  \<open>export_field header JNull = [] \<and> export_field header JUndefined = []
   \<and> export_field ''tags'' (JArr xs) = export_field ''tags'' (JStr (join_js '';'' xs))
   \<and> join_js '';'' (map JStr ts) = join '';'' ts
   \<and> export_field header (JStr s) =
        (if CHR '','' \<in> set s \<or> CHR 0x22 \<in> set s \<or> CHR 0x0A \<in> set s
         then [CHR 0x22] @ concat (map (\<lambda>c. if c = CHR 0x22 then [CHR 0x22, CHR 0x22] else [c]) s) @ [CHR 0x22]
         else s)
   \<and> export_field ''tags'' (JArr [JStr ''FuSa'', JStr ''OTA'']) = ''FuSa;OTA''
   \<and> export_field ''company_name'' (JStr ''Acme, Inc.'') = ''"Acme, Inc."''
   \<and> export_field ''notes'' (JStr ''say "hi"'') = ''"say ""hi"""''
   \<and> export_row account =
       join '',''
       [export_field ''id'' (account ''id''),
        export_field ''company_name'' (account ''company_name''),
        export_field ''email'' (account ''email''),
        export_field ''company_type'' (account ''company_type''),
        export_field ''industry'' (account ''industry''),
        export_field ''tags'' (account ''tags''),
        export_field ''country'' (account ''country''),
        export_field ''status'' (account ''status''),
        export_field ''website'' (account ''website''),
        export_field ''region'' (account ''region''),
        export_field ''notes'' (account ''notes''),
        export_field ''phone'' (account ''phone''),
        export_field ''account_owner'' (account ''account_owner''),
        export_field ''created_by'' (account ''created_by''),
        export_field ''modified_by'' (account ''modified_by''),
        export_field ''created_at'' (account ''created_at''),
        export_field ''updated_at'' (account ''updated_at'')]
   \<and> csvContent data =
       join '','' export_headers @ concat (map (\<lambda>account. CHR 0x0A # export_row account) data)
   \<and> download (handleExport (Some data) None today) =
       (if data = [] then None else Some (''accounts_export_'' @ today @ ''.csv'', csvContent data))
   \<and> export_row (account_of [(''id'', JStr ''a1''), (''company_name'', JStr ''Acme, Inc.''), (''email'', JNull),
        (''tags'', JArr [JStr ''FuSa'', JStr ''OTA'']), (''notes'', JStr ''say "hi"'')])
       = ''a1,"Acme, Inc.",,,,FuSa;OTA,,,,,"say ""hi""",,,,,,''
   \<and> download (handleExport (Some [account_of [(''id'', JStr ''a1''), (''company_name'', JStr ''Acme, Inc.''), (''email'', JNull),
        (''tags'', JArr [JStr ''FuSa'', JStr ''OTA'']), (''notes'', JStr ''say "hi"'')]]) None ''2024-01-01'')
       = Some (''accounts_export_2024-01-01.csv'',
           ''id,company_name,email,company_type,industry,tags,country,status,website,region,notes,phone,account_owner,created_by,modified_by,created_at,updated_at''
           @ [CHR 0x0A] @ ''a1,"Acme, Inc.",,,,FuSa;OTA,,,,,"say ""hi""",,,,,,'')\<close>
proof (intro conjI)
  show "export_field header JNull = []" "export_field header JUndefined = []"
    by (simp_all add: export_field_def)
  show "export_field ''tags'' (JArr xs) = export_field ''tags'' (JStr (join_js '';'' xs))"
    by (simp add: export_field_def)
  show "join_js '';'' (map JStr ts) = join '';'' ts"
    by (rule join_js_strings)
  show "export_field header (JStr s) =
        (if CHR '','' \<in> set s \<or> CHR 0x22 \<in> set s \<or> CHR 0x0A \<in> set s
         then [CHR 0x22] @ concat (map (\<lambda>c. if c = CHR 0x22 then [CHR 0x22, CHR 0x22] else [c]) s) @ [CHR 0x22]
         else s)"
    by (simp add: export_field_def includes_char_set double_quotes_concat)
  show "export_field ''tags'' (JArr [JStr ''FuSa'', JStr ''OTA'']) = ''FuSa;OTA''"
    by (simp add: export_field_def)
  show \<open>export_field ''company_name'' (JStr ''Acme, Inc.'') = ''"Acme, Inc."''\<close>
    by (simp add: export_field_def)
  show \<open>export_field ''notes'' (JStr ''say "hi"'') = ''"say ""hi"""''\<close>
    by (simp add: export_field_def)
  show "export_row account =
       join '',''
       [export_field ''id'' (account ''id''),
        export_field ''company_name'' (account ''company_name''),
        export_field ''email'' (account ''email''),
        export_field ''company_type'' (account ''company_type''),
        export_field ''industry'' (account ''industry''),
        export_field ''tags'' (account ''tags''),
        export_field ''country'' (account ''country''),
        export_field ''status'' (account ''status''),
        export_field ''website'' (account ''website''),
        export_field ''region'' (account ''region''),
        export_field ''notes'' (account ''notes''),
        export_field ''phone'' (account ''phone''),
        export_field ''account_owner'' (account ''account_owner''),
        export_field ''created_by'' (account ''created_by''),
        export_field ''modified_by'' (account ''modified_by''),
        export_field ''created_at'' (account ''created_at''),
        export_field ''updated_at'' (account ''updated_at'')]"
    by (simp only: export_row_def export_headers_def list.map)
  show "csvContent data =
       join '','' export_headers @ concat (map (\<lambda>account. CHR 0x0A # export_row account) data)"
    unfolding csvContent_def join_Cons by (simp add: comp_def)
  show "download (handleExport (Some data) None today) =
       (if data = [] then None else Some (''accounts_export_'' @ today @ ''.csv'', csvContent data))"
    by (simp add: handleExport_def)
  show \<open>export_row (account_of [(''id'', JStr ''a1''), (''company_name'', JStr ''Acme, Inc.''), (''email'', JNull),
        (''tags'', JArr [JStr ''FuSa'', JStr ''OTA'']), (''notes'', JStr ''say "hi"'')])
       = ''a1,"Acme, Inc.",,,,FuSa;OTA,,,,,"say ""hi""",,,,,,''\<close>
    by code_simp
  show \<open>download (handleExport (Some [account_of [(''id'', JStr ''a1''), (''company_name'', JStr ''Acme, Inc.''), (''email'', JNull),
        (''tags'', JArr [JStr ''FuSa'', JStr ''OTA'']), (''notes'', JStr ''say "hi"'')]]) None ''2024-01-01'')
       = Some (''accounts_export_2024-01-01.csv'',
           ''id,company_name,email,company_type,industry,tags,country,status,website,region,notes,phone,account_owner,created_by,modified_by,created_at,updated_at''
           @ [CHR 0x0A] @ ''a1,"Acme, Inc.",,,,FuSa;OTA,,,,,"say ""hi""",,,,,,'')\<close>
    by code_simp
qed

text \<open>
  C8, as amended. The export output begins with a fixed header row, the same for all
  data, of exactly 17 column names; the file is produced when there is an account to
  export.
\<close>

theorem export_header_row:
  "csvContent data =
     ''id,company_name,email,company_type,industry,tags,country,status,website,region,notes,phone,account_owner,created_by,modified_by,created_at,updated_at''
       @ concat (map (\<lambda>account. CHR 0x0A # export_row account) data)
   \<and> join '','' export_headers =
     ''id,company_name,email,company_type,industry,tags,country,status,website,region,notes,phone,account_owner,created_by,modified_by,created_at,updated_at''
   \<and> length export_headers = 17
   \<and> download (handleExport (Some data) None today) =
       (if data = [] then None else Some (''accounts_export_'' @ today @ ''.csv'', csvContent data))"
proof (intro conjI)
  show h: "join '','' export_headers =
     ''id,company_name,email,company_type,industry,tags,country,status,website,region,notes,phone,account_owner,created_by,modified_by,created_at,updated_at''"
    by (simp add: export_headers_def)
  show "csvContent data =
     ''id,company_name,email,company_type,industry,tags,country,status,website,region,notes,phone,account_owner,created_by,modified_by,created_at,updated_at''
       @ concat (map (\<lambda>account. CHR 0x0A # export_row account) data)"
    unfolding csvContent_def join_Cons h by (simp add: comp_def)
  show "length export_headers = 17"
    by (simp add: export_headers_def)
  show "download (handleExport (Some data) None today) =
       (if data = [] then None else Some (''accounts_export_'' @ today @ ''.csv'', csvContent data))"
    by (simp add: handleExport_def)
qed

text \<open>
  C8 as stated fails on the number: the header row has 17 column names, not 18, in the
  list of the code and in the first line of an exported file.
\<close>

theorem export_header_not_18_columns:
  "length export_headers \<noteq> 18
   \<and> length (split_on CHR '','' (join '','' export_headers)) = 17"
  by code_simp

end
